theory Spec2Isabelle
  imports Complex_Main
begin

section \<open>Python values, exceptions and the file system\<close>

text \<open>
  The two modules \<^verbatim>\<open>Parameters.py\<close> and \<^verbatim>\<open>Parameters_JSON.py\<close> are embedded as
  HOL functions. An exception is a value of \<open>py_error\<close>, and every function that can raise
  returns \<open>py_error + 'a\<close> with \<open>Inl\<close> for the exception.

  \<^item> \<open>OSError p\<close>: \<^verbatim>\<open>open\<close> (called by \<^verbatim>\<open>np.loadtxt\<close> and by the \<^verbatim>\<open>with\<close> statement)
    could not open path \<open>p\<close> (\<^verbatim>\<open>FileNotFoundError\<close>, \<^verbatim>\<open>PermissionError\<close>).
  \<^item> \<open>ValueError (WrongColumnCount n)\<close>: \<^verbatim>\<open>np.loadtxt\<close> found a data row that has not the
    number of columns of the type; its message ends \<^verbatim>\<open>were found at row n\<close>, the data rows
    counted from 1. \<open>ValueError (CannotConvert n)\<close>: \<^verbatim>\<open>np.loadtxt\<close> found a field that the
    converter of its column rejects; its message says \<^verbatim>\<open>at row n\<close>, the data rows counted
    from 0. \<open>ValueError InvalidLiteral\<close>: \<^verbatim>\<open>float()\<close> or \<^verbatim>\<open>int()\<close> rejected its argument.
  \<^item> \<open>TypeError\<close>: iteration over a 0-d array, or \<^verbatim>\<open>float(None)\<close>.
  \<^item> \<open>NameError x\<close>: the name \<open>x\<close> is bound neither locally nor in the module.
  \<^item> \<open>ClusterNotFound\<close>: the exception class of \<^verbatim>\<open>Parameters.py\<close>.
  \<^item> \<open>JSONDecodeError\<close>, \<open>ParseError\<close>: what \<^verbatim>\<open>json.loads\<close> and \<^verbatim>\<open>from_dict\<close> raise.
\<close>

datatype value_error = WrongColumnCount nat | CannotConvert nat | InvalidLiteral

datatype py_error =
    OSError string
  | ValueError value_error
  | TypeError
  | OverflowError
  | NameError string
  | ClusterNotFound
  | JSONDecodeError
  | ParseError

text \<open>
  Python is dynamically typed: a dataclass field annotated \<^verbatim>\<open>float\<close> holds whatever
  object was stored there. Numeric fields therefore hold a \<open>pyval\<close>. The type \<open>'f\<close> stands
  for the floating-point numbers; they are never computed with, only parsed, stored,
  converted and compared, so they stay abstract.
\<close>

datatype 'f pyval = PyNone | PyBool bool | PyInt int | PyFloat 'f | PyStr string

text \<open>A file is the list of its lines; a path that cannot be opened maps to \<open>None\<close>.\<close>

type_synonym filesystem = "string \<Rightarrow> string list option"

definition open_read :: "filesystem \<Rightarrow> string \<Rightarrow> py_error + string list" where
  "open_read fs path = (case fs path of None \<Rightarrow> Inl (OSError path) | Some ls \<Rightarrow> Inr ls)"

definition bind_err :: "'e + 'a \<Rightarrow> ('a \<Rightarrow> 'e + 'b) \<Rightarrow> 'e + 'b" where
  "bind_err m f = (case m of Inl e \<Rightarrow> Inl e | Inr x \<Rightarrow> f x)"

subsection \<open>\<^verbatim>\<open>str.upper\<close>\<close>

text \<open>
  On an ASCII string (all characters below 128, as in the catalogue identifiers such as
  \<^verbatim>\<open>NGC104\<close>) \<^verbatim>\<open>str.upper\<close> maps \<^verbatim>\<open>a\<close>..\<^verbatim>\<open>z\<close> to \<^verbatim>\<open>A\<close>..\<^verbatim>\<open>Z\<close> and leaves every other
  character. \<open>upper\<close> is that function; it is \<^verbatim>\<open>str.upper\<close> on ASCII strings only, so the
  properties of a lookup that depend on which names match are stated for ASCII names.
\<close>

definition ascii :: "string \<Rightarrow> bool" where
  "ascii s = list_all (\<lambda>c. (of_char c :: nat) < 128) s"

definition upper_char :: "char \<Rightarrow> char" where
  "upper_char c =
     (let n = (of_char c :: nat) in if 97 \<le> n \<and> n \<le> 122 then char_of (n - 32) else c)"

definition upper :: "string \<Rightarrow> string" where
  "upper s = map upper_char s"

text \<open>
  Two strings are equal up to letter case when they have the same length and at each
  position the same character or the same ASCII letter in the other case.
\<close>

definition swapcase_char :: "char \<Rightarrow> char" where
  "swapcase_char c =
     (let n = (of_char c :: nat) in
      if 97 \<le> n \<and> n \<le> 122 then char_of (n - 32)
      else if 65 \<le> n \<and> n \<le> 90 then char_of (n + 32)
      else c)"

definition eq_upto_case :: "string \<Rightarrow> string \<Rightarrow> bool" where
  "eq_upto_case s t = list_all2 (\<lambda>c d. d = c \<or> d = swapcase_char c) s t"

section \<open>The catalogue: \<^verbatim>\<open>VasilievData\<close>, \<^verbatim>\<open>get_GC_params\<close>, \<^verbatim>\<open>get_selected_GC\<close>\<close>

record 'f VasilievData =
  name :: string
  RA :: "'f pyval"
  DEC :: "'f pyval"
  distance :: "'f pyval"
  losv :: "'f pyval"
  err_losv :: "'f pyval"
  pm_RA :: "'f pyval"
  pm_DEC :: "'f pyval"
  err_pm_RA :: "'f pyval"
  err_pm_DEC :: "'f pyval"
  correlation :: "'f pyval"
  rh :: "'f pyval"
  N_stars :: "'f pyval"

record 'f VasilievList =
  data :: "'f VasilievData list"

subsection \<open>\<^verbatim>\<open>np.loadtxt(fname, dtype=data_type, comments='#', unpack=True)\<close>\<close>

text \<open>
  The reader of NumPy (1.23 and later; \<^verbatim>\<open>np.unicode_\<close> exists up to 1.26), for the call made
  by \<^verbatim>\<open>get_GC_params\<close>:
  \<^item> what follows the comment character \<^verbatim>\<open>#\<close> on a line is dropped;
  \<^item> the rest is split at runs of white space; a line without a field is skipped;
  \<^item> a row whose number of fields is not the 13 of \<^verbatim>\<open>data_type\<close> raises \<^verbatim>\<open>ValueError\<close>,
    and so does, after that check, a field that the converter of its column rejects;
    the message gives the number of the row among the data rows;
  \<^item> the first column has type \<^verbatim>\<open>(np.unicode_, 16)\<close>: a longer field is cut to 16
    characters; columns 2 to 12 are \<^verbatim>\<open>float\<close>, column 13 is \<^verbatim>\<open>int\<close>;
  \<^item> with the default \<^verbatim>\<open>ndmin=0\<close> the array read is squeezed, so a file with exactly one
    data row gives a 0-d array; with \<^verbatim>\<open>unpack=True\<close> and a structured type, the result
    is the list of the 13 field arrays.
  The converters of the float and the integer columns are parameters.
\<close>

record 'f numpy_conv =
  to_float64 :: "string \<Rightarrow> 'f option"
  to_int64 :: "string \<Rightarrow> int option"

text \<open>
  The white space of ASCII: the blank, the controls 9 to 13 and the separators 28 to 31.
  A line of plain text has printable ASCII characters and tabs only; on such lines the
  fields that \<open>tokens\<close> gives are those of the reader.
\<close>

definition is_space :: "char \<Rightarrow> bool" where
  "is_space c =
     (c \<in> set [CHR '' '', CHR 0x09, CHR 0x0A, CHR 0x0B, CHR 0x0C, CHR 0x0D,
               CHR 0x1C, CHR 0x1D, CHR 0x1E, CHR 0x1F])"

definition plain_text :: "string \<Rightarrow> bool" where
  "plain_text l =
     list_all (\<lambda>c. c = CHR 0x09 \<or> (32 \<le> (of_char c :: nat) \<and> (of_char c :: nat) \<le> 126)) l"

definition strip_comment :: "string \<Rightarrow> string" where
  "strip_comment l = takeWhile (\<lambda>c. c \<noteq> CHR ''#'') l"

fun split_acc :: "string \<Rightarrow> string \<Rightarrow> string list" where
  "split_acc cur [] = (if cur = [] then [] else [cur])"
| "split_acc cur (c # cs) =
     (if is_space c then (if cur = [] then split_acc [] cs else cur # split_acc [] cs)
      else split_acc (cur @ [c]) cs)"

definition tokens :: "string \<Rightarrow> string list" where
  "tokens l = split_acc [] (strip_comment l)"

type_synonym 'f np_row =
  "string \<times> 'f \<times> 'f \<times> 'f \<times> 'f \<times> 'f \<times> 'f \<times> 'f \<times> 'f \<times> 'f \<times> 'f \<times> 'f \<times> int"

fun convert_row :: "'f numpy_conv \<Rightarrow> string list \<Rightarrow> 'f np_row option" where
  "convert_row cv [t0, t1, t2, t3, t4, t5, t6, t7, t8, t9, t10, t11, t12] =
     Option.bind (to_float64 cv t1) (\<lambda>ra.
     Option.bind (to_float64 cv t2) (\<lambda>dec.
     Option.bind (to_float64 cv t3) (\<lambda>dist.
     Option.bind (to_float64 cv t4) (\<lambda>hrv.
     Option.bind (to_float64 cv t5) (\<lambda>err_hrv.
     Option.bind (to_float64 cv t6) (\<lambda>pmRA.
     Option.bind (to_float64 cv t7) (\<lambda>pmDEC.
     Option.bind (to_float64 cv t8) (\<lambda>err_pmRA.
     Option.bind (to_float64 cv t9) (\<lambda>err_pmDEC.
     Option.bind (to_float64 cv t10) (\<lambda>corr.
     Option.bind (to_float64 cv t11) (\<lambda>r_h.
     Option.bind (to_int64 cv t12) (\<lambda>n_stars.
       Some (take 16 t0, ra, dec, dist, hrv, err_hrv, pmRA, pmDEC, err_pmRA, err_pmDEC,
             corr, r_h, n_stars)))))))))))))"
| "convert_row cv ts = None"

text \<open>\<open>read_rows cv k ls\<close> reads the lines \<open>ls\<close> after \<open>k\<close> data rows have been read.\<close>

fun read_rows :: "'f numpy_conv \<Rightarrow> nat \<Rightarrow> string list \<Rightarrow> py_error + 'f np_row list" where
  "read_rows cv k [] = Inr []"
| "read_rows cv k (l # ls) =
     (if tokens l = [] then read_rows cv k ls
      else if length (tokens l) \<noteq> 13 then Inl (ValueError (WrongColumnCount (Suc k)))
      else case convert_row cv (tokens l) of
             None \<Rightarrow> Inl (ValueError (CannotConvert k))
           | Some r \<Rightarrow> bind_err (read_rows cv (Suc k) ls) (\<lambda>rs. Inr (r # rs)))"

text \<open>
  The lines of a catalogue file, in the words of the format: a comment line begins with
  \<^verbatim>\<open>#\<close>, a blank line has white space only, a data line has at least one field. A data
  line is malformed when it has not 13 fields, when one of its fields 2 to 12 is not a
  float, or when its field 13 is not an integer. \<open>row_record\<close> is the record that a data
  line describes: its fields, converted, in the order of the columns.
\<close>

definition comment_line :: "string \<Rightarrow> bool" where
  "comment_line l = (case l of [] \<Rightarrow> False | c # r \<Rightarrow> c = CHR ''#'')"

definition blank_line :: "string \<Rightarrow> bool" where
  "blank_line l = list_all is_space l"

definition data_line :: "string \<Rightarrow> bool" where
  "data_line l = (tokens l \<noteq> [])"

definition malformed :: "'f numpy_conv \<Rightarrow> string \<Rightarrow> bool" where
  "malformed cv l =
     (let ts = tokens l in
      ts \<noteq> [] \<and>
      (length ts \<noteq> 13 \<or> list_ex (\<lambda>i. to_float64 cv (ts ! i) = None) [1..<12] \<or>
       to_int64 cv (ts ! 12) = None))"

text \<open>
  The error that the reader raises at a malformed data line \<open>l\<close> that \<open>n\<close> data rows
  precede: the column count is checked before the fields are converted, and the two
  messages count the rows from 1 and from 0.
\<close>

definition loadtxt_error :: "string \<Rightarrow> nat \<Rightarrow> py_error" where
  "loadtxt_error l n =
     ValueError (if length (tokens l) \<noteq> 13 then WrongColumnCount (Suc n) else CannotConvert n)"

definition row_record :: "'f numpy_conv \<Rightarrow> string \<Rightarrow> 'f VasilievData" where
  "row_record cv l =
     (let ts = tokens l in
      \<lparr>VasilievData.name = take 16 (ts ! 0),
       RA = PyFloat (the (to_float64 cv (ts ! 1))),
       DEC = PyFloat (the (to_float64 cv (ts ! 2))),
       distance = PyFloat (the (to_float64 cv (ts ! 3))),
       losv = PyFloat (the (to_float64 cv (ts ! 4))),
       err_losv = PyFloat (the (to_float64 cv (ts ! 5))),
       pm_RA = PyFloat (the (to_float64 cv (ts ! 6))),
       pm_DEC = PyFloat (the (to_float64 cv (ts ! 7))),
       err_pm_RA = PyFloat (the (to_float64 cv (ts ! 8))),
       err_pm_DEC = PyFloat (the (to_float64 cv (ts ! 9))),
       correlation = PyFloat (the (to_float64 cv (ts ! 10))),
       rh = PyFloat (the (to_float64 cv (ts ! 11))),
       N_stars = PyInt (the (to_int64 cv (ts ! 12)))\<rparr>)"

datatype 'a ndarray = Array0d 'a | Array1d "'a list"

definition squeeze :: "'a list \<Rightarrow> 'a ndarray" where
  "squeeze rows = (case rows of [r] \<Rightarrow> Array0d r | _ \<Rightarrow> Array1d rows)"

type_synonym 'f columns =
  "string ndarray \<times> 'f ndarray \<times> 'f ndarray \<times> 'f ndarray \<times> 'f ndarray \<times> 'f ndarray \<times>
   'f ndarray \<times> 'f ndarray \<times> 'f ndarray \<times> 'f ndarray \<times> 'f ndarray \<times> 'f ndarray \<times> int ndarray"

definition unpack :: "'f np_row ndarray \<Rightarrow> 'f columns" where
  "unpack arr =
     (map_ndarray (\<lambda>(a0, a1, a2, a3, a4, a5, a6, a7, a8, a9, a10, a11, a12). a0) arr,
      map_ndarray (\<lambda>(a0, a1, a2, a3, a4, a5, a6, a7, a8, a9, a10, a11, a12). a1) arr,
      map_ndarray (\<lambda>(a0, a1, a2, a3, a4, a5, a6, a7, a8, a9, a10, a11, a12). a2) arr,
      map_ndarray (\<lambda>(a0, a1, a2, a3, a4, a5, a6, a7, a8, a9, a10, a11, a12). a3) arr,
      map_ndarray (\<lambda>(a0, a1, a2, a3, a4, a5, a6, a7, a8, a9, a10, a11, a12). a4) arr,
      map_ndarray (\<lambda>(a0, a1, a2, a3, a4, a5, a6, a7, a8, a9, a10, a11, a12). a5) arr,
      map_ndarray (\<lambda>(a0, a1, a2, a3, a4, a5, a6, a7, a8, a9, a10, a11, a12). a6) arr,
      map_ndarray (\<lambda>(a0, a1, a2, a3, a4, a5, a6, a7, a8, a9, a10, a11, a12). a7) arr,
      map_ndarray (\<lambda>(a0, a1, a2, a3, a4, a5, a6, a7, a8, a9, a10, a11, a12). a8) arr,
      map_ndarray (\<lambda>(a0, a1, a2, a3, a4, a5, a6, a7, a8, a9, a10, a11, a12). a9) arr,
      map_ndarray (\<lambda>(a0, a1, a2, a3, a4, a5, a6, a7, a8, a9, a10, a11, a12). a10) arr,
      map_ndarray (\<lambda>(a0, a1, a2, a3, a4, a5, a6, a7, a8, a9, a10, a11, a12). a11) arr,
      map_ndarray (\<lambda>(a0, a1, a2, a3, a4, a5, a6, a7, a8, a9, a10, a11, a12). a12) arr)"

definition loadtxt :: "'f numpy_conv \<Rightarrow> filesystem \<Rightarrow> string \<Rightarrow> py_error + 'f columns" where
  "loadtxt cv fs fname =
     bind_err (open_read fs fname) (\<lambda>ls.
     bind_err (read_rows cv 0 ls) (\<lambda>rows.
       Inr (unpack (squeeze rows))))"

subsection \<open>\<^verbatim>\<open>zip\<close> over the field arrays\<close>

text \<open>
  \<^verbatim>\<open>zip\<close> asks each argument for an iterator, from left to right; a 0-d array has none
  (\<^verbatim>\<open>TypeError: iteration over a 0-d array\<close>). It stops at the shortest argument.
\<close>

definition py_iter :: "'a ndarray \<Rightarrow> py_error + 'a list" where
  "py_iter a = (case a of Array0d x \<Rightarrow> Inl TypeError | Array1d xs \<Rightarrow> Inr xs)"

definition zip13 :: "'f columns \<Rightarrow> py_error + 'f np_row list" where
  "zip13 cols =
     (case cols of (c0, c1, c2, c3, c4, c5, c6, c7, c8, c9, c10, c11, c12) \<Rightarrow>
     bind_err (py_iter c0) (\<lambda>i0.
     bind_err (py_iter c1) (\<lambda>i1.
     bind_err (py_iter c2) (\<lambda>i2.
     bind_err (py_iter c3) (\<lambda>i3.
     bind_err (py_iter c4) (\<lambda>i4.
     bind_err (py_iter c5) (\<lambda>i5.
     bind_err (py_iter c6) (\<lambda>i6.
     bind_err (py_iter c7) (\<lambda>i7.
     bind_err (py_iter c8) (\<lambda>i8.
     bind_err (py_iter c9) (\<lambda>i9.
     bind_err (py_iter c10) (\<lambda>i10.
     bind_err (py_iter c11) (\<lambda>i11.
     bind_err (py_iter c12) (\<lambda>i12.
       Inr (zip i0 (zip i1 (zip i2 (zip i3 (zip i4 (zip i5 (zip i6 (zip i7 (zip i8 (zip i9
             (zip i10 (zip i11 i12))))))))))))))))))))))))))"

subsection \<open>\<^verbatim>\<open>get_GC_params\<close>\<close>

definition mk_VasilievData :: "'f np_row \<Rightarrow> 'f VasilievData" where
  "mk_VasilievData t =
     (case t of (name_it, ra, dec, d, hr, ehr, pmra, pmdec, epmra, epmdec, c, rh_it, n) \<Rightarrow>
       \<lparr>VasilievData.name = name_it, RA = PyFloat ra, DEC = PyFloat dec, distance = PyFloat d,
        losv = PyFloat hr, err_losv = PyFloat ehr, pm_RA = PyFloat pmra, pm_DEC = PyFloat pmdec,
        err_pm_RA = PyFloat epmra, err_pm_DEC = PyFloat epmdec, correlation = PyFloat c,
        rh = PyFloat rh_it, N_stars = PyInt n\<rparr>)"

text \<open>The \<^verbatim>\<open>for\<close> loop: \<^verbatim>\<open>data_vasiliev.data += [data]\<close> for each tuple of the \<^verbatim>\<open>zip\<close>.\<close>

fun append_rows :: "'f np_row list \<Rightarrow> 'f VasilievList \<Rightarrow> 'f VasilievList" where
  "append_rows [] data_vasiliev = data_vasiliev"
| "append_rows (t # ts) data_vasiliev =
     append_rows ts (data_vasiliev\<lparr>data := data data_vasiliev @ [mk_VasilievData t]\<rparr>)"

definition get_GC_params :: "'f numpy_conv \<Rightarrow> filesystem \<Rightarrow> string \<Rightarrow> py_error + 'f VasilievList" where
  "get_GC_params cv fs fname =
     bind_err (loadtxt cv fs fname) (\<lambda>cols.
     bind_err (zip13 cols) (\<lambda>tuples.
       Inr (append_rows tuples \<lparr>data = []\<rparr>)))"

subsection \<open>\<^verbatim>\<open>get_selected_GC\<close>\<close>

text \<open>
  The body of the \<^verbatim>\<open>try\<close>: the first item whose upper-cased name is the upper-cased
  \<^verbatim>\<open>obj_name\<close> is returned with \<^verbatim>\<open>True\<close>; after the loop \<^verbatim>\<open>ClusterNotFound\<close> is raised.
\<close>

fun scan_GC :: "string \<Rightarrow> 'f VasilievData list \<Rightarrow> py_error + ('f VasilievData \<times> bool)" where
  "scan_GC obj_name [] = Inl ClusterNotFound"
| "scan_GC obj_name (item # rest) =
     (if upper (VasilievData.name item) = upper obj_name then Inr (item, True)
      else scan_GC obj_name rest)"

text \<open>
  The record built by the \<^verbatim>\<open>except\<close> clause. \<^verbatim>\<open>err_pm_RA\<close>, \<^verbatim>\<open>correlation\<close> and
  \<^verbatim>\<open>N_stars\<close> are given the integer \<^verbatim>\<open>0\<close>, the other numeric fields the float \<^verbatim>\<open>0.\<close>.
\<close>

definition empty_VasilievData :: "('f::zero) VasilievData" where
  "empty_VasilievData =
     \<lparr>VasilievData.name = '''', RA = PyFloat 0, DEC = PyFloat 0, distance = PyFloat 0,
      losv = PyFloat 0, err_losv = PyFloat 0, pm_RA = PyFloat 0, pm_DEC = PyFloat 0,
      err_pm_RA = PyInt 0, err_pm_DEC = PyFloat 0, correlation = PyInt 0, rh = PyFloat 0,
      N_stars = PyInt 0\<rparr>"

text \<open>
  The \<^verbatim>\<open>except ClusterNotFound\<close> clause catches that exception only; its three
  \<^verbatim>\<open>print\<close> calls do not change the value returned and are left out.
\<close>

definition get_selected_GC ::
  "string \<Rightarrow> ('f::zero) VasilievList \<Rightarrow> py_error + ('f VasilievData \<times> bool)" where
  "get_selected_GC obj_name data_listed =
     (case scan_GC obj_name (data data_listed) of
        Inl ClusterNotFound \<Rightarrow> Inr (empty_VasilievData, False)
      | Inl e \<Rightarrow> Inl e
      | Inr found \<Rightarrow> Inr found)"

section \<open>The parameter store: \<^verbatim>\<open>ParametersGC\<close>, \<^verbatim>\<open>isInJSONParametersFile\<close>\<close>

text \<open>
  \<^verbatim>\<open>ParametersGC\<close> and \<^verbatim>\<open>ParametersList\<close> are declared twice, with the same fields, in
  \<^verbatim>\<open>Parameters.py\<close> and in \<^verbatim>\<open>Parameters_JSON.py\<close>; one record stands for both.
\<close>

record 'f ParametersGC =
  name :: string
  PM_plot_x_axis_min :: "'f pyval"
  PM_plot_x_axis_max :: "'f pyval"
  PM_plot_y_axis_min :: "'f pyval"
  PM_plot_y_axis_max :: "'f pyval"
  width_minim :: "'f pyval"
  width_maxim :: "'f pyval"
  width_nstep :: "'f pyval"
  height_minim :: "'f pyval"
  height_maxim :: "'f pyval"
  height_nstep :: "'f pyval"
  incl_minim :: "'f pyval"
  incl_maxim :: "'f pyval"
  incl_nstep :: "'f pyval"

record 'f ParametersList =
  globular_cluster :: "'f ParametersGC list"

text \<open>\<^verbatim>\<open>ParametersGC()\<close>: every field at its declared default.\<close>

definition default_ParametersGC :: "('f::zero) ParametersGC" where
  "default_ParametersGC =
     \<lparr>ParametersGC.name = '''',
      PM_plot_x_axis_min = PyFloat 0,
      PM_plot_x_axis_max = PyFloat 0,
      PM_plot_y_axis_min = PyFloat 0,
      PM_plot_y_axis_max = PyFloat 0,
      width_minim = PyFloat 0,
      width_maxim = PyFloat 0,
      width_nstep = PyInt 0,
      height_minim = PyFloat 0,
      height_maxim = PyFloat 0,
      height_nstep = PyInt 0,
      incl_minim = PyFloat 0,
      incl_maxim = PyFloat 0,
      incl_nstep = PyInt 0\<rparr>"

subsection \<open>The builtins \<^verbatim>\<open>float\<close> and \<^verbatim>\<open>int\<close>\<close>

text \<open>
  \<^verbatim>\<open>float(x)\<close> returns a float unchanged, converts an integer or a Boolean, parses a
  string and rejects \<^verbatim>\<open>None\<close>; \<^verbatim>\<open>int(x)\<close> returns an integer unchanged, converts a
  Boolean, truncates a float, parses a string and rejects \<^verbatim>\<open>None\<close>. The conversions
  between floats, integers and strings are parameters; each says which exception it raises.
\<close>

record 'f py_builtins =
  float_of_str :: "string \<Rightarrow> py_error + 'f"
  float_of_int :: "int \<Rightarrow> py_error + 'f"
  int_of_str :: "string \<Rightarrow> py_error + int"
  int_of_float :: "'f \<Rightarrow> py_error + int"

fun py_float :: "'f py_builtins \<Rightarrow> 'f pyval \<Rightarrow> py_error + 'f" where
  "py_float py (PyFloat x) = Inr x"
| "py_float py (PyInt i) = float_of_int py i"
| "py_float py (PyBool b) = float_of_int py (if b then 1 else 0)"
| "py_float py (PyStr s) = float_of_str py s"
| "py_float py PyNone = Inl TypeError"

fun py_int :: "'f py_builtins \<Rightarrow> 'f pyval \<Rightarrow> py_error + int" where
  "py_int py (PyInt i) = Inr i"
| "py_int py (PyBool b) = Inr (if b then 1 else 0)"
| "py_int py (PyFloat x) = int_of_float py x"
| "py_int py (PyStr s) = int_of_str py s"
| "py_int py PyNone = Inl TypeError"

subsection \<open>\<^verbatim>\<open>Parameters.isInJSONParametersFile\<close>\<close>

text \<open>
  The constructor call of the loop body. Python evaluates the keyword arguments from
  left to right, so the first conversion that fails decides the exception.
\<close>

definition mk_cluster_found :: "'f py_builtins \<Rightarrow> 'f ParametersGC \<Rightarrow> py_error + 'f ParametersGC" where
  "mk_cluster_found py item =
     bind_err (py_float py (PM_plot_x_axis_min item)) (\<lambda>v1.
     bind_err (py_float py (PM_plot_x_axis_max item)) (\<lambda>v2.
     bind_err (py_float py (PM_plot_y_axis_min item)) (\<lambda>v3.
     bind_err (py_float py (PM_plot_y_axis_max item)) (\<lambda>v4.
     bind_err (py_float py (width_minim item)) (\<lambda>v5.
     bind_err (py_float py (width_maxim item)) (\<lambda>v6.
     bind_err (py_int py (width_nstep item)) (\<lambda>v7.
     bind_err (py_float py (height_minim item)) (\<lambda>v8.
     bind_err (py_float py (height_maxim item)) (\<lambda>v9.
     bind_err (py_int py (height_nstep item)) (\<lambda>v10.
     bind_err (py_float py (incl_minim item)) (\<lambda>v11.
     bind_err (py_float py (incl_maxim item)) (\<lambda>v12.
     bind_err (py_int py (incl_nstep item)) (\<lambda>v13.
       Inr \<lparr>ParametersGC.name = ParametersGC.name item,
            PM_plot_x_axis_min = PyFloat v1,
            PM_plot_x_axis_max = PyFloat v2,
            PM_plot_y_axis_min = PyFloat v3,
            PM_plot_y_axis_max = PyFloat v4,
            width_minim = PyFloat v5,
            width_maxim = PyFloat v6,
            width_nstep = PyInt v7,
            height_minim = PyFloat v8,
            height_maxim = PyFloat v9,
            height_nstep = PyInt v10,
            incl_minim = PyFloat v11,
            incl_maxim = PyFloat v12,
            incl_nstep = PyInt v13\<rparr>)))))))))))))"

fun scan_parameters ::
  "('f::zero) py_builtins \<Rightarrow> string \<Rightarrow> 'f ParametersGC list \<Rightarrow> py_error + ('f ParametersGC \<times> bool)" where
  "scan_parameters py object_name [] = Inr (default_ParametersGC, False)"
| "scan_parameters py object_name (item # rest) =
     (if upper (ParametersGC.name item) = upper object_name
      then bind_err (mk_cluster_found py item) (\<lambda>cluster_found. Inr (cluster_found, True))
      else scan_parameters py object_name rest)"

text \<open>\<^verbatim>\<open>j.read()\<close> gives the text of the file: its lines, each ended by a line feed.\<close>

definition read_text :: "string list \<Rightarrow> string" where
  "read_text ls = concat (map (\<lambda>l. l @ [CHR 0x0A]) ls)"

text \<open>
  \<^verbatim>\<open>json.loads\<close> and \<^verbatim>\<open>ParametersList.from_dict\<close> (of \<^verbatim>\<open>dataclass_wizard\<close>) are library
  functions and are parameters; \<open>'j\<close> is the type of what \<^verbatim>\<open>json.loads\<close> returns.
\<close>

definition isInJSONParametersFile ::
  "('f::zero) py_builtins \<Rightarrow> (string \<Rightarrow> py_error + 'j) \<Rightarrow> ('j \<Rightarrow> py_error + 'f ParametersList) \<Rightarrow>
   filesystem \<Rightarrow> string \<Rightarrow> string \<Rightarrow> py_error + ('f ParametersGC \<times> bool)" where
  "isInJSONParametersFile py json_loads from_dict fs filename_json object_name =
     bind_err (open_read fs filename_json) (\<lambda>j.
     bind_err (json_loads (read_text j)) (\<lambda>data_json.
     bind_err (from_dict data_json) (\<lambda>object_json.
       scan_parameters py object_name (globular_cluster object_json))))"

subsection \<open>\<^verbatim>\<open>Parameters_JSON.isInJSONParametersFile\<close>\<close>

text \<open>
  The function of \<^verbatim>\<open>Parameters_JSON.py\<close> has the same body but no parameter
  \<^verbatim>\<open>object_name\<close>, and the module binds no such name. The condition of the loop
  evaluates \<^verbatim>\<open>item.name.upper()\<close> and then looks \<^verbatim>\<open>object_name\<close> up, which raises
  \<^verbatim>\<open>NameError\<close>: the first item, if there is one, ends the call.
\<close>

fun JSON_scan_parameters :: "('f::zero) ParametersGC list \<Rightarrow> py_error + ('f ParametersGC \<times> bool)" where
  "JSON_scan_parameters [] = Inr (default_ParametersGC, False)"
| "JSON_scan_parameters (item # rest) = Inl (NameError ''object_name'')"

definition JSON_isInJSONParametersFile ::
  "(string \<Rightarrow> py_error + 'j) \<Rightarrow> ('j \<Rightarrow> py_error + ('f::zero) ParametersList) \<Rightarrow>
   filesystem \<Rightarrow> string \<Rightarrow> py_error + ('f ParametersGC \<times> bool)" where
  "JSON_isInJSONParametersFile json_loads from_dict fs filename_json =
     bind_err (open_read fs filename_json) (\<lambda>j.
     bind_err (json_loads (read_text j)) (\<lambda>data_json.
     bind_err (from_dict data_json) (\<lambda>object_json.
       JSON_scan_parameters (globular_cluster object_json))))"

section \<open>Zero-valued records\<close>

text \<open>
  A numeric field is 0 when it holds the integer \<^verbatim>\<open>0\<close>, the float \<^verbatim>\<open>0.\<close> or \<^verbatim>\<open>False\<close>
  (the three compare equal to \<^verbatim>\<open>0\<close> in Python). A record is zero-valued when its name is
  empty and all its numeric fields are 0.
\<close>

fun py_is_zero :: "('f::zero) pyval \<Rightarrow> bool" where
  "py_is_zero (PyInt i) = (i = 0)"
| "py_is_zero (PyFloat x) = (x = 0)"
| "py_is_zero (PyBool b) = (\<not> b)"
| "py_is_zero (PyStr s) = False"
| "py_is_zero PyNone = False"

definition zero_VasilievData :: "('f::zero) VasilievData \<Rightarrow> bool" where
  "zero_VasilievData r =
     (VasilievData.name r = '''' \<and>
      py_is_zero (RA r) \<and> py_is_zero (DEC r) \<and> py_is_zero (distance r) \<and>
      py_is_zero (losv r) \<and> py_is_zero (err_losv r) \<and> py_is_zero (pm_RA r) \<and>
      py_is_zero (pm_DEC r) \<and> py_is_zero (err_pm_RA r) \<and> py_is_zero (err_pm_DEC r) \<and>
      py_is_zero (correlation r) \<and> py_is_zero (rh r) \<and> py_is_zero (N_stars r))"

definition zero_ParametersGC :: "('f::zero) ParametersGC \<Rightarrow> bool" where
  "zero_ParametersGC p =
     (ParametersGC.name p = '''' \<and>
      py_is_zero (PM_plot_x_axis_min p) \<and> py_is_zero (PM_plot_x_axis_max p) \<and> py_is_zero (PM_plot_y_axis_min p) \<and>
      py_is_zero (PM_plot_y_axis_max p) \<and> py_is_zero (width_minim p) \<and> py_is_zero (width_maxim p) \<and>
      py_is_zero (width_nstep p) \<and> py_is_zero (height_minim p) \<and> py_is_zero (height_maxim p) \<and>
      py_is_zero (height_nstep p) \<and> py_is_zero (incl_minim p) \<and> py_is_zero (incl_maxim p) \<and>
      py_is_zero (incl_nstep p))"

section \<open>Records typed as declared\<close>

text \<open>
  \<^verbatim>\<open>ParametersList.from_dict\<close> converts what it reads to the declared types, or raises: in
  a record that it returns, each float field holds a float and each step count an
  integer.
\<close>

fun is_PyFloat :: "'f pyval \<Rightarrow> bool" where
  "is_PyFloat (PyFloat x) = True"
| "is_PyFloat (PyInt i) = False"
| "is_PyFloat (PyBool b) = False"
| "is_PyFloat (PyStr s) = False"
| "is_PyFloat PyNone = False"

fun is_PyInt :: "'f pyval \<Rightarrow> bool" where
  "is_PyInt (PyInt i) = True"
| "is_PyInt (PyFloat x) = False"
| "is_PyInt (PyBool b) = False"
| "is_PyInt (PyStr s) = False"
| "is_PyInt PyNone = False"

definition typed_ParametersGC :: "'f ParametersGC \<Rightarrow> bool" where
  "typed_ParametersGC p =
     (is_PyFloat (PM_plot_x_axis_min p) \<and>
      is_PyFloat (PM_plot_x_axis_max p) \<and>
      is_PyFloat (PM_plot_y_axis_min p) \<and>
      is_PyFloat (PM_plot_y_axis_max p) \<and>
      is_PyFloat (width_minim p) \<and>
      is_PyFloat (width_maxim p) \<and>
      is_PyInt (width_nstep p) \<and>
      is_PyFloat (height_minim p) \<and>
      is_PyFloat (height_maxim p) \<and>
      is_PyInt (height_nstep p) \<and>
      is_PyFloat (incl_minim p) \<and>
      is_PyFloat (incl_maxim p) \<and>
      is_PyInt (incl_nstep p))"

section \<open>Example files\<close>

text \<open>
  Concrete inputs on which the functions are evaluated: converters that know a few
  numerals (floats are rational numbers here), a file system with seven files, and two
  parameter files: one whose record gives \<^verbatim>\<open>PM_plot_x_axis_min\<close> as the string \<^verbatim>\<open>"1.5"\<close>,
  and one whose record gives the step count \<^verbatim>\<open>width_nstep\<close> as \<^verbatim>\<open>2.7\<close>.
\<close>

definition example_conv :: "rat numpy_conv" where
  "example_conv =
     \<lparr>to_float64 = map_of [(''1.5'', 3 / 2), (''-2.0'', - 2), (''0.5'', 1 / 2), (''4.5'', 9 / 2)],
      to_int64 = map_of [(''7'', 7), (''12'', 12)]\<rparr>"

definition example_parameters_text :: "string list" where
  \<open>example_parameters_text =
     [''{"globular_cluster": [{"name": "NGC5139", "PM_plot_x_axis_min": "1.5",'',
      '' "PM_plot_x_axis_max": 4.5, "width_nstep": 10, "height_nstep": "12"}]}'']\<close>

definition example_fractional_text :: "string list" where
  \<open>example_fractional_text =
     [''{"globular_cluster": [{"name": "NGC5139", "width_nstep": 2.7}]}'']\<close>

definition example_fs :: filesystem where
  "example_fs = map_of
     [(''catalog.txt'',
        [''# name ra dec dist hrv e_hrv pmra pmdec e_pmra e_pmdec corr rh n'',
         ''NGC104 1.5 -2.0 4.5 0.5 0.5 1.5 -2.0 0.5 0.5 0.5 1.5 7'',
         '''',
         ''Ngc104 4.5 4.5 4.5 4.5 4.5 4.5 4.5 4.5 4.5 4.5 4.5 12  # again'',
         ''NGC288 0.5 0.5 0.5 0.5 0.5 0.5 0.5 0.5 0.5 0.5 0.5 12'']),
      (''single.txt'',
        [''# one cluster'',
         ''NGC104 1.5 -2.0 4.5 0.5 0.5 1.5 -2.0 0.5 0.5 0.5 1.5 7'']),
      (''empty.txt'',
        [''# no cluster yet'', ''   '', '''']),
      (''bad.txt'',
        [''# the second cluster lacks columns'',
         ''NGC104 1.5 -2.0 4.5 0.5 0.5 1.5 -2.0 0.5 0.5 0.5 1.5 7'',
         ''NGC288 0.5 0.5 12'',
         ''NGC362 0.5 0.5 0.5 0.5 0.5 0.5 0.5 0.5 0.5 0.5 0.5 12'']),
      (''notanumber.txt'',
        [''# the distance of the second cluster is not known'',
         ''NGC104 1.5 -2.0 4.5 0.5 0.5 1.5 -2.0 0.5 0.5 0.5 1.5 7'',
         ''NGC288 0.5 0.5 n/a 0.5 0.5 0.5 0.5 0.5 0.5 0.5 0.5 12'']),
      (''parameters.json'', example_parameters_text),
      (''fractional.json'', example_fractional_text)]"

text \<open>The catalogue that the five lines of \<^verbatim>\<open>catalog.txt\<close> describe: three clusters.\<close>

definition example_catalog :: "rat VasilievList" where
  "example_catalog =
     \<lparr>data = map (row_record example_conv)
        [''NGC104 1.5 -2.0 4.5 0.5 0.5 1.5 -2.0 0.5 0.5 0.5 1.5 7'',
         ''Ngc104 4.5 4.5 4.5 4.5 4.5 4.5 4.5 4.5 4.5 4.5 4.5 12  # again'',
         ''NGC288 0.5 0.5 0.5 0.5 0.5 0.5 0.5 0.5 0.5 0.5 0.5 12'']\<rparr>"

text \<open>
  The builtins of the example: \<^verbatim>\<open>float\<close> of an integer is exact up to \<open>2 ^ 53\<close>, raises
  \<^verbatim>\<open>OverflowError\<close> from \<open>2 ^ 1024\<close> on and rounds in between, which the rational numbers
  do not show; the examples use small integers.
\<close>

definition example_py :: "rat py_builtins" where
  "example_py =
     \<lparr>float_of_str = (\<lambda>s. case map_of [(''1.5'', 3 / 2), (''4.5'', 9 / 2)] s of
                              None \<Rightarrow> Inl (ValueError InvalidLiteral) | Some x \<Rightarrow> Inr x),
      float_of_int = (\<lambda>i. if 2 ^ 1024 \<le> \<bar>i\<bar> then Inl OverflowError else Inr (of_int i)),
      int_of_str = (\<lambda>s. case map_of [(''10'', 10), (''12'', 12)] s of
                            None \<Rightarrow> Inl (ValueError InvalidLiteral) | Some i \<Rightarrow> Inr i),
      int_of_float = (\<lambda>x. Inr (if 0 \<le> x then \<lfloor>x\<rfloor> else \<lceil>x\<rceil>))\<rparr>"

text \<open>
  What \<^verbatim>\<open>json.loads\<close> returns for an example file is a list of objects, each a list of
  keys with their values. \<^verbatim>\<open>from_dict\<close> fills the missing fields with the defaults of
  \<^verbatim>\<open>ParametersGC\<close> and converts the values to the declared types: for the first file the
  strings \<^verbatim>\<open>"1.5"\<close> and \<^verbatim>\<open>"12"\<close> become the float 1.5 and the integer 12; for the second
  file it raises \<^verbatim>\<open>ParseError\<close>, because 2.7 is no integer.
\<close>

definition example_json :: "(string \<times> rat pyval) list list" where
  "example_json =
     [ [(''name'', PyStr ''NGC5139''), (''PM_plot_x_axis_min'', PyStr ''1.5''),
       (''PM_plot_x_axis_max'', PyFloat (9 / 2)), (''width_nstep'', PyInt 10),
       (''height_nstep'', PyStr ''12'')] ]"

definition example_fractional_json :: "(string \<times> rat pyval) list list" where
  "example_fractional_json =
     [ [(''name'', PyStr ''NGC5139''), (''width_nstep'', PyFloat (27 / 10))] ]"

definition example_json_loads :: "string \<Rightarrow> py_error + (string \<times> rat pyval) list list" where
  "example_json_loads txt =
     (if txt = read_text example_parameters_text then Inr example_json
      else if txt = read_text example_fractional_text then Inr example_fractional_json
      else Inl JSONDecodeError)"

definition example_document :: "rat ParametersList" where
  "example_document =
     \<lparr>globular_cluster =
        [\<lparr>ParametersGC.name = ''NGC5139'',
          PM_plot_x_axis_min = PyFloat (3 / 2), PM_plot_x_axis_max = PyFloat (9 / 2),
          PM_plot_y_axis_min = PyFloat 0, PM_plot_y_axis_max = PyFloat 0,
          width_minim = PyFloat 0, width_maxim = PyFloat 0, width_nstep = PyInt 10,
          height_minim = PyFloat 0, height_maxim = PyFloat 0, height_nstep = PyInt 12,
          incl_minim = PyFloat 0, incl_maxim = PyFloat 0, incl_nstep = PyInt 0\<rparr>]\<rparr>"

definition example_from_dict :: "(string \<times> rat pyval) list list \<Rightarrow> py_error + rat ParametersList" where
  "example_from_dict j =
     (if j = example_json then Inr example_document
      else if j = example_fractional_json then Inl ParseError
      else Inl ParseError)"

section \<open>Letter case\<close>

lemma upper_char_eqD: "upper_char c = upper_char d \<Longrightarrow> d = c \<or> d = swapcase_char c"
proof -
  assume eq: "upper_char c = upper_char d"
  define n where "n = (of_char c :: nat)"
  define m where "m = (of_char d :: nat)"
  have nu: "(of_char (upper_char c) :: nat) = (if 97 \<le> n \<and> n \<le> 122 then n - 32 else n)"
    by (auto simp: upper_char_def n_def Let_def)
  have mu: "(of_char (upper_char d) :: nat) = (if 97 \<le> m \<and> m \<le> 122 then m - 32 else m)"
    by (auto simp: upper_char_def m_def Let_def)
  have ns: "(of_char (swapcase_char c) :: nat) =
      (if 97 \<le> n \<and> n \<le> 122 then n - 32 else if 65 \<le> n \<and> n \<le> 90 then n + 32 else n)"
    by (auto simp: swapcase_char_def n_def Let_def)
  from eq nu mu have "(if 97 \<le> n \<and> n \<le> 122 then n - 32 else n) = (if 97 \<le> m \<and> m \<le> 122 then m - 32 else m)"
    by simp
  then have "m = n \<or> m = (if 97 \<le> n \<and> n \<le> 122 then n - 32 else if 65 \<le> n \<and> n \<le> 90 then n + 32 else n)"
    by (auto split: if_splits)
  with ns have "of_char d = (of_char c :: nat) \<or> of_char d = (of_char (swapcase_char c) :: nat)"
    by (simp add: n_def m_def)
  then show ?thesis by (auto simp: of_char_eq_iff)
qed

lemma upper_swapcase_char: "upper_char (swapcase_char c) = upper_char c"
  by (auto simp: upper_char_def swapcase_char_def Let_def)

lemma eq_upto_case_upper: "eq_upto_case s t \<Longrightarrow> upper s = upper t"
  unfolding eq_upto_case_def upper_def
  by (induction s t rule: list_all2_induct) (auto simp: upper_swapcase_char)

lemma upper_eq_upto_case: "upper s = upper t \<Longrightarrow> eq_upto_case s t"
proof -
  assume "upper s = upper t"
  then have "list_all2 (\<lambda>c d. upper_char c = upper_char d) s t"
    unfolding upper_def by (simp add: list.rel_map list.rel_eq [symmetric] list_all2_conv_all_nth map_equality_iff)
  then show ?thesis
    unfolding eq_upto_case_def by (rule list_all2_mono) (rule upper_char_eqD)
qed

lemma eq_upto_case_iff: "eq_upto_case s t \<longleftrightarrow> upper s = upper t"
  using eq_upto_case_upper upper_eq_upto_case by blast

section \<open>The reader and the loop of \<^verbatim>\<open>get_GC_params\<close>\<close>

lemma zip_map_same: "zip (map f xs) (map g xs) = map (\<lambda>x. (f x, g x)) xs"
  by (induction xs) auto

lemma zip13_unpack_1d: "zip13 (unpack (Array1d rows)) = Inr rows"
  by (simp add: zip13_def unpack_def py_iter_def bind_err_def zip_map_same split_def)

lemma zip13_unpack_0d: "zip13 (unpack (Array0d r)) = Inl TypeError"
  by (simp add: zip13_def unpack_def py_iter_def bind_err_def)

lemma append_rows_eq:
  "append_rows ts dv = dv\<lparr>data := data dv @ map mk_VasilievData ts\<rparr>"
  by (induction ts arbitrary: dv) auto

lemma length13E:
  assumes "length ts = 13"
  obtains t0 t1 t2 t3 t4 t5 t6 t7 t8 t9 t10 t11 t12
    where "ts = [t0, t1, t2, t3, t4, t5, t6, t7, t8, t9, t10, t11, t12]"
  using assms by (auto simp: eval_nat_numeral length_Suc_conv)

lemma convert_row_length: "convert_row cv ts = Some r \<Longrightarrow> length ts = 13"
  by (induction cv ts rule: convert_row.induct) simp_all

lemma convert_row_wrong_length: "length ts \<noteq> 13 \<Longrightarrow> convert_row cv ts = None"
  using convert_row_length [of cv ts] by (cases "convert_row cv ts") auto

lemma convert_row_None_iff:
  "convert_row cv ts = None \<longleftrightarrow>
     length ts \<noteq> 13 \<or> list_ex (\<lambda>i. to_float64 cv (ts ! i) = None) [1..<12] \<or>
     to_int64 cv (ts ! 12) = None"
proof (cases "length ts = 13")
  case False
  then show ?thesis by (simp add: convert_row_wrong_length)
next
  case True
  then obtain t0 t1 t2 t3 t4 t5 t6 t7 t8 t9 t10 t11 t12
    where ts: "ts = [t0, t1, t2, t3, t4, t5, t6, t7, t8, t9, t10, t11, t12]"
    by (rule length13E)
  have up: "[1..<12] = [1, 2, 3, 4, 5, 6, 7, 8, 9, 10, 11::nat]"
    by (simp add: upt_rec)
  show ?thesis
    unfolding ts up by (auto simp: Option.bind_eq_None_conv)
qed

lemma convert_row_record:
  assumes "data_line l" "\<not> malformed cv l"
  shows "\<exists>r. convert_row cv (tokens l) = Some r \<and> mk_VasilievData r = row_record cv l"
proof -
  from assms have len: "length (tokens l) = 13"
    and fl: "\<not> list_ex (\<lambda>i. to_float64 cv (tokens l ! i) = None) [1..<12]"
    and it: "to_int64 cv (tokens l ! 12) \<noteq> None"
    by (auto simp: malformed_def data_line_def Let_def)
  from len obtain t0 t1 t2 t3 t4 t5 t6 t7 t8 t9 t10 t11 t12
    where ts: "tokens l = [t0, t1, t2, t3, t4, t5, t6, t7, t8, t9, t10, t11, t12]"
    by (rule length13E)
  have up: "[1..<12] = [1, 2, 3, 4, 5, 6, 7, 8, 9, 10, 11::nat]"
    by (simp add: upt_rec)
  from fl it show ?thesis
    unfolding row_record_def Let_def ts up
    by (auto simp: mk_VasilievData_def)
qed

lemma read_rows_ok:
  "\<forall>l\<in>set ls. \<not> malformed cv l \<Longrightarrow>
   read_rows cv k ls = Inr (map (\<lambda>l. the (convert_row cv (tokens l))) (filter data_line ls))"
proof (induction ls arbitrary: k)
  case Nil
  then show ?case by simp
next
  case (Cons l ls)
  show ?case
  proof (cases "data_line l")
    case False
    with Cons show ?thesis by (simp add: data_line_def)
  next
    case True
    with Cons.prems obtain r where r: "convert_row cv (tokens l) = Some r"
      using convert_row_record [of l cv] by auto
    then have "length (tokens l) = 13" by (rule convert_row_length)
    with r True Cons show ?thesis by (simp add: data_line_def bind_err_def)
  qed
qed

lemma read_rows_err:
  "i < length ls \<Longrightarrow> malformed cv (ls ! i) \<Longrightarrow> \<forall>j<i. \<not> malformed cv (ls ! j) \<Longrightarrow>
   read_rows cv k ls = Inl (loadtxt_error (ls ! i) (k + length (filter data_line (take i ls))))"
proof (induction ls arbitrary: k i)
  case Nil
  then show ?case by simp
next
  case (Cons l ls)
  show ?case
  proof (cases i)
    case 0
    with Cons.prems have "malformed cv l" by simp
    then have "tokens l \<noteq> []" "length (tokens l) = 13 \<Longrightarrow> convert_row cv (tokens l) = None"
      by (auto simp: malformed_def Let_def convert_row_None_iff)
    with 0 show ?thesis by (simp add: loadtxt_error_def)
  next
    case (Suc i')
    with Cons.prems have ok: "\<not> malformed cv l" by auto
    from Suc Cons.prems have rest: "i' < length ls" "malformed cv (ls ! i')"
      "\<forall>j<i'. \<not> malformed cv (ls ! j)" by auto
    show ?thesis
    proof (cases "data_line l")
      case False
      with Cons.IH [OF rest, of k] Suc show ?thesis by (simp add: data_line_def)
    next
      case True
      with ok obtain r where r: "convert_row cv (tokens l) = Some r"
        using convert_row_record [of l cv] by auto
      then have "length (tokens l) = 13" by (rule convert_row_length)
      with True r Cons.IH [OF rest, of "Suc k"] Suc show ?thesis
        by (simp add: data_line_def bind_err_def)
    qed
  qed
qed

lemma map_rows_record:
  "\<forall>l\<in>set ls. \<not> malformed cv l \<Longrightarrow>
   map mk_VasilievData (map (\<lambda>l. the (convert_row cv (tokens l))) (filter data_line ls))
     = map (row_record cv) (filter data_line ls)"
proof -
  assume ok: "\<forall>l\<in>set ls. \<not> malformed cv l"
  have "mk_VasilievData (the (convert_row cv (tokens l))) = row_record cv l"
    if "l \<in> set ls" "data_line l" for l
    using convert_row_record [of l cv] that ok by auto
  then show ?thesis by simp
qed

lemma get_GC_params_rows:
  assumes "fs fname = Some ls" "read_rows cv 0 ls = Inr rows"
  shows "get_GC_params cv fs fname =
     (if length rows = 1 then Inl TypeError else Inr \<lparr>data = map mk_VasilievData rows\<rparr>)"
proof (cases rows)
  case Nil
  with assms show ?thesis
    by (simp add: get_GC_params_def loadtxt_def open_read_def bind_err_def squeeze_def
        zip13_unpack_1d)
next
  case (Cons r rs)
  show ?thesis
  proof (cases rs)
    case Nil
    with Cons assms show ?thesis
      by (simp add: get_GC_params_def loadtxt_def open_read_def bind_err_def squeeze_def
          zip13_unpack_0d)
  next
    case (Cons r' rs')
    with \<open>rows = r # rs\<close> assms show ?thesis
      by (simp add: get_GC_params_def loadtxt_def open_read_def bind_err_def squeeze_def
          zip13_unpack_1d append_rows_eq)
  qed
qed

lemma get_GC_params_ok:
  assumes "fs fname = Some ls" "\<forall>l\<in>set ls. \<not> malformed cv l"
    "length (filter data_line ls) \<noteq> 1"
  shows "get_GC_params cv fs fname = Inr \<lparr>data = map (row_record cv) (filter data_line ls)\<rparr>"
  using get_GC_params_rows [of fs fname ls cv, OF assms(1) read_rows_ok [OF assms(2), of 0]] assms(3)
    map_rows_record [OF assms(2)] by simp

lemma get_GC_params_single:
  assumes "fs fname = Some ls" "\<forall>l\<in>set ls. \<not> malformed cv l"
    "length (filter data_line ls) = 1"
  shows "get_GC_params cv fs fname = Inl TypeError"
  using get_GC_params_rows [of fs fname ls cv, OF assms(1) read_rows_ok [OF assms(2), of 0]] assms(3) by simp

lemma get_GC_params_malformed:
  assumes "fs fname = Some ls" "i < length ls" "malformed cv (ls ! i)"
    "\<forall>j<i. \<not> malformed cv (ls ! j)"
  shows "get_GC_params cv fs fname =
    Inl (loadtxt_error (ls ! i) (length (filter data_line (take i ls))))"
  using read_rows_err [OF assms(2,3,4), of 0] assms(1)
  by (simp add: get_GC_params_def loadtxt_def open_read_def bind_err_def)

lemma get_GC_params_missing:
  "fs fname = None \<Longrightarrow> get_GC_params cv fs fname = Inl (OSError fname)"
  by (simp add: get_GC_params_def loadtxt_def open_read_def bind_err_def)

section \<open>The scans\<close>

lemma scan_GC_miss:
  "\<forall>r\<in>set xs. upper (VasilievData.name r) \<noteq> upper q \<Longrightarrow> scan_GC q xs = Inl ClusterNotFound"
  by (induction xs) auto

lemma scan_GC_first:
  "\<forall>r\<in>set pre. upper (VasilievData.name r) \<noteq> upper q \<Longrightarrow> upper (VasilievData.name r) = upper q \<Longrightarrow>
   scan_GC q (pre @ r # post) = Inr (r, True)"
  by (induction pre) auto

lemma scan_GC_upper: "upper q1 = upper q2 \<Longrightarrow> scan_GC q1 xs = scan_GC q2 xs"
  by (induction xs) auto

lemma get_selected_GC_miss:
  "\<forall>r\<in>set (data d). upper (VasilievData.name r) \<noteq> upper q \<Longrightarrow>
   get_selected_GC q d = Inr (empty_VasilievData, False)"
  by (simp add: get_selected_GC_def scan_GC_miss)

lemma get_selected_GC_first:
  "data d = pre @ r # post \<Longrightarrow> \<forall>r\<in>set pre. upper (VasilievData.name r) \<noteq> upper q \<Longrightarrow>
   upper (VasilievData.name r) = upper q \<Longrightarrow> get_selected_GC q d = Inr (r, True)"
  by (simp add: get_selected_GC_def scan_GC_first)

lemma scan_parameters_miss:
  "\<forall>r\<in>set xs. upper (ParametersGC.name r) \<noteq> upper q \<Longrightarrow>
   scan_parameters py q xs = Inr (default_ParametersGC, False)"
  by (induction xs) auto

lemma scan_parameters_first:
  "\<forall>r\<in>set pre. upper (ParametersGC.name r) \<noteq> upper q \<Longrightarrow> upper (ParametersGC.name item) = upper q \<Longrightarrow>
   scan_parameters py q (pre @ item # post) =
     bind_err (mk_cluster_found py item) (\<lambda>cluster_found. Inr (cluster_found, True))"
  by (induction pre) auto

lemma scan_parameters_upper:
  "upper q1 = upper q2 \<Longrightarrow> scan_parameters py q1 xs = scan_parameters py q2 xs"
  by (induction xs) auto

lemma isInJSONParametersFile_loaded:
  "fs f = Some ls \<Longrightarrow> json_loads (read_text ls) = Inr dj \<Longrightarrow> from_dict dj = Inr doc \<Longrightarrow>
   isInJSONParametersFile py json_loads from_dict fs f q = scan_parameters py q (globular_cluster doc)"
  by (simp add: isInJSONParametersFile_def open_read_def bind_err_def)

lemma blank_no_tokens: "blank_line l \<Longrightarrow> tokens l = []"
proof -
  assume b: "blank_line l"
  have 1: "list_all is_space s \<Longrightarrow> split_acc [] s = []" for s
    by (induction s) auto
  have "\<not> is_space (CHR ''#'')" by (simp add: is_space_def)
  with b have "strip_comment l = l"
    unfolding strip_comment_def blank_line_def
    by (auto simp: takeWhile_eq_all_conv list_all_iff)
  with b 1 show ?thesis by (simp add: tokens_def blank_line_def)
qed

lemma comment_no_tokens: "comment_line l \<Longrightarrow> tokens l = []"
  by (cases l) (auto simp: comment_line_def tokens_def strip_comment_def)

section \<open>Further lemmas for the claims\<close>

lemma get_selected_GC_nth:
  assumes "i < length (data d)"
    and "eq_upto_case (VasilievData.name (data d ! i)) q"
    and "\<forall>k<i. \<not> eq_upto_case (VasilievData.name (data d ! k)) q"
  shows "get_selected_GC q d = Inr (data d ! i, True)"
proof -
  have split: "data d = take i (data d) @ (data d ! i) # drop (Suc i) (data d)"
    using assms(1) by (rule id_take_nth_drop)
  have pre: "\<forall>r\<in>set (take i (data d)). upper (VasilievData.name r) \<noteq> upper q"
  proof
    fix r assume "r \<in> set (take i (data d))"
    then obtain k where "k < i" "r = data d ! k"
      using assms(1) by (auto simp: in_set_conv_nth)
    with assms(3) show "upper (VasilievData.name r) \<noteq> upper q"
      by (simp add: eq_upto_case_iff)
  qed
  from assms(2) have "upper (VasilievData.name (data d ! i)) = upper q"
    by (simp add: eq_upto_case_iff)
  with split pre show ?thesis
    by (rule get_selected_GC_first)
qed

lemma first_malformed:
  assumes "l \<in> set ls" "malformed cv l"
  shows "\<exists>i<length ls. malformed cv (ls ! i) \<and> (\<forall>j<i. \<not> malformed cv (ls ! j))"
proof -
  define P where "P k \<longleftrightarrow> k < length ls \<and> malformed cv (ls ! k)" for k
  from assms obtain n where "P n"
    by (auto simp: in_set_conv_nth P_def)
  define i where "i = (LEAST k. P k)"
  have Pi: "P i"
    unfolding i_def using \<open>P n\<close> by (rule LeastI)
  have "\<not> P j" if "j < i" for j
    using that unfolding i_def by (rule not_less_Least)
  with Pi show ?thesis
    unfolding P_def by (intro exI [of _ i]) auto
qed

lemma mk_cluster_found_typed:
  "typed_ParametersGC item \<Longrightarrow> mk_cluster_found py item = Inr item"
proof -
  assume t: "typed_ParametersGC item"
  have f: "is_PyFloat v \<Longrightarrow> \<exists>x. v = PyFloat x" for v :: "'a pyval"
    by (cases v) simp_all
  have i: "is_PyInt v \<Longrightarrow> \<exists>n. v = PyInt n" for v :: "'a pyval"
    by (cases v) simp_all
  from t obtain v1 v2 v3 v4 v5 v6 v7 v8 v9 v10 v11 v12 v13 where
   "PM_plot_x_axis_min item = PyFloat v1"
    "PM_plot_x_axis_max item = PyFloat v2"
    "PM_plot_y_axis_min item = PyFloat v3"
    "PM_plot_y_axis_max item = PyFloat v4"
    "width_minim item = PyFloat v5"
    "width_maxim item = PyFloat v6"
    "width_nstep item = PyInt v7"
    "height_minim item = PyFloat v8"
    "height_maxim item = PyFloat v9"
    "height_nstep item = PyInt v10"
    "incl_minim item = PyFloat v11"
    "incl_maxim item = PyFloat v12"
    "incl_nstep item = PyInt v13"
    unfolding typed_ParametersGC_def by (auto dest!: f i)
  then have "mk_cluster_found py item =
      Inr \<lparr>ParametersGC.name = ParametersGC.name item,
          PM_plot_x_axis_min = PM_plot_x_axis_min item,
          PM_plot_x_axis_max = PM_plot_x_axis_max item,
          PM_plot_y_axis_min = PM_plot_y_axis_min item,
          PM_plot_y_axis_max = PM_plot_y_axis_max item,
          width_minim = width_minim item,
          width_maxim = width_maxim item,
          width_nstep = width_nstep item,
          height_minim = height_minim item,
          height_maxim = height_maxim item,
          height_nstep = height_nstep item,
          incl_minim = incl_minim item,
          incl_maxim = incl_maxim item,
          incl_nstep = incl_nstep item\<rparr>"
    by (simp add: mk_cluster_found_def bind_err_def)
  then show ?thesis by simp
qed

lemma mk_cluster_found_name:
  "mk_cluster_found py item = Inr c \<Longrightarrow> ParametersGC.name c = ParametersGC.name item"
  by (auto simp: mk_cluster_found_def bind_err_def split: sum.splits)

lemma example_mk_cluster_found:
  "mk_cluster_found example_py
     \<lparr>ParametersGC.name = ''NGC5139'',
      PM_plot_x_axis_min = PyFloat (3 / 2), PM_plot_x_axis_max = PyFloat (9 / 2),
      PM_plot_y_axis_min = PyFloat 0, PM_plot_y_axis_max = PyFloat 0,
      width_minim = PyFloat 0, width_maxim = PyFloat 0, width_nstep = PyInt 10,
      height_minim = PyFloat 0, height_maxim = PyFloat 0, height_nstep = PyInt 12,
      incl_minim = PyFloat 0, incl_maxim = PyFloat 0, incl_nstep = PyInt 0\<rparr> =
   Inr \<lparr>ParametersGC.name = ''NGC5139'',
      PM_plot_x_axis_min = PyFloat (3 / 2), PM_plot_x_axis_max = PyFloat (9 / 2),
      PM_plot_y_axis_min = PyFloat 0, PM_plot_y_axis_max = PyFloat 0,
      width_minim = PyFloat 0, width_maxim = PyFloat 0, width_nstep = PyInt 10,
      height_minim = PyFloat 0, height_maxim = PyFloat 0, height_nstep = PyInt 12,
      incl_minim = PyFloat 0, incl_maxim = PyFloat 0, incl_nstep = PyInt 0\<rparr>"
  by (simp add: mk_cluster_found_def bind_err_def example_py_def)

lemma example_loaded:
  "isInJSONParametersFile py example_json_loads example_from_dict example_fs
     ''parameters.json'' q = scan_parameters py q (globular_cluster example_document)"
proof -
  have 1: "example_fs ''parameters.json'' = Some example_parameters_text"
    by (simp add: example_fs_def)
  have 2: "example_json_loads (read_text example_parameters_text) = Inr example_json"
    by (simp add: example_json_loads_def)
  have 3: "example_from_dict example_json = Inr example_document"
    by (simp add: example_from_dict_def)
  show ?thesis
    using 1 2 3 by (rule isInJSONParametersFile_loaded)
qed

lemma load_then_find:
  assumes "fs fname = Some ls" and "\<forall>l\<in>set ls. \<not> malformed cv l"
    and "rows = filter data_line ls" and "length rows \<noteq> 1"
    and "i < length rows"
    and "eq_upto_case (VasilievData.name (row_record cv (rows ! i))) q"
    and "\<forall>k<i. \<not> eq_upto_case (VasilievData.name (row_record cv (rows ! k))) q"
  shows "get_GC_params cv fs fname = Inr \<lparr>data = map (row_record cv) rows\<rparr> \<and>
    get_selected_GC q \<lparr>data = map (row_record cv) rows\<rparr> = Inr (row_record cv (rows ! i), True)"
proof -
  define d where "d = \<lparr>data = map (row_record cv) rows\<rparr>"
  from assms(1,2,4) have load: "get_GC_params cv fs fname = Inr d"
    unfolding d_def assms(3) by (intro get_GC_params_ok) simp_all
  from assms(5) have i: "i < length (data d)" by (simp add: d_def)
  have "get_selected_GC q d = Inr (data d ! i, True)"
    using i assms(5,6,7) by (intro get_selected_GC_nth) (simp_all add: d_def)
  with i load show ?thesis by (simp add: d_def)
qed

lemma row_record_name:
  "length (tokens l ! 0) \<le> 16 \<Longrightarrow> VasilievData.name (row_record cv l) = tokens l ! 0"
  by (simp add: row_record_def Let_def)

lemma JSON_isInJSONParametersFile_loaded:
  "fs f = Some ls \<Longrightarrow> json_loads (read_text ls) = Inr dj \<Longrightarrow> from_dict dj = Inr doc \<Longrightarrow>
   JSON_isInJSONParametersFile json_loads from_dict fs f =
     (if globular_cluster doc = [] then Inr (default_ParametersGC, False)
      else Inl (NameError ''object_name''))"
  by (cases "globular_cluster doc")
    (simp_all add: JSON_isInJSONParametersFile_def open_read_def bind_err_def)

lemma scan_parameters_no_NameError:
  "(\<forall>item\<in>set xs. \<exists>c. mk_cluster_found py item = Inr c) \<Longrightarrow>
   \<exists>c b. scan_parameters py q xs = Inr (c, b)"
  by (induction xs) (auto simp: bind_err_def)

section \<open>Claims\<close>

text \<open>
  C1: a catalogue file with names in it, loaded and then queried with a name of the file
  in any letter case, should give \<open>True\<close> and the record of the row. For a file with
  exactly one data row the load itself raises: the reader returns 0-d field arrays, and
  \<^verbatim>\<open>zip\<close> cannot iterate over them. (\<open>load_then_find\<close> is the property for the files
  with no or with at least two data rows.)
\<close>

theorem C1_single_row_catalog_raises:
  "example_fs ''single.txt'' = Some
     [''# one cluster'', ''NGC104 1.5 -2.0 4.5 0.5 0.5 1.5 -2.0 0.5 0.5 0.5 1.5 7''] \<and>
   read_rows example_conv 0
     [''# one cluster'', ''NGC104 1.5 -2.0 4.5 0.5 0.5 1.5 -2.0 0.5 0.5 0.5 1.5 7''] =
     Inr [(''NGC104'', 3 / 2, - 2, 9 / 2, 1 / 2, 1 / 2, 3 / 2, - 2, 1 / 2, 1 / 2, 1 / 2, 3 / 2, 7)] \<and>
   get_GC_params example_conv example_fs ''single.txt'' = Inl TypeError"
  by code_simp

text \<open>
  C2: for every loaded catalogue, and for every parameter document that was loaded, a
  queried name that matches no record up to letter case gives the zero-valued record
  (empty name, all numeric fields 0) with \<open>False\<close>, as a returned value: no exception
  reaches the caller. The names of the records and the queried name are ASCII strings.
\<close>

theorem C2_miss_returns_zero_record:
  "(ascii q \<and>
    (\<forall>r\<in>set (data d). ascii (VasilievData.name r) \<and> \<not> eq_upto_case (VasilievData.name r) q) \<longrightarrow>
      get_selected_GC q d = Inr (empty_VasilievData, False) \<and>
      zero_VasilievData (empty_VasilievData :: ('f::zero) VasilievData)) \<and>
   (ascii q \<and>
    fs f = Some ls \<and> json_loads (read_text ls) = Inr dj \<and> from_dict dj = Inr doc \<and>
    (\<forall>item\<in>set (globular_cluster doc).
       ascii (ParametersGC.name item) \<and> \<not> eq_upto_case (ParametersGC.name item) q) \<longrightarrow>
      isInJSONParametersFile py json_loads from_dict fs f q = Inr (default_ParametersGC, False) \<and>
      zero_ParametersGC (default_ParametersGC :: 'f ParametersGC))"
proof -
  have z1: "zero_VasilievData (empty_VasilievData :: 'f VasilievData)"
    by (simp add: zero_VasilievData_def empty_VasilievData_def)
  have z2: "zero_ParametersGC (default_ParametersGC :: 'f ParametersGC)"
    by (simp add: zero_ParametersGC_def default_ParametersGC_def)
  show ?thesis
    using z1 z2
    by (auto simp: eq_upto_case_iff get_selected_GC_miss isInJSONParametersFile_loaded
        scan_parameters_miss)
qed

theorem C2_miss_returns_zero_record_witness:
  "ascii ''NGC999'' \<and>
   list_all (\<lambda>r. ascii (VasilievData.name r) \<and> \<not> eq_upto_case (VasilievData.name r) ''NGC999'')
     (data example_catalog) \<and>
   get_selected_GC ''NGC999'' example_catalog = Inr (empty_VasilievData, False) \<and>
   zero_VasilievData (empty_VasilievData :: rat VasilievData) \<and>
   example_fs ''parameters.json'' = Some example_parameters_text \<and>
   example_json_loads (read_text example_parameters_text) = Inr example_json \<and>
   example_from_dict example_json = Inr example_document \<and>
   list_all (\<lambda>item. ascii (ParametersGC.name item) \<and>
       \<not> eq_upto_case (ParametersGC.name item) ''NGC999'')
     (globular_cluster example_document) \<and>
   isInJSONParametersFile example_py example_json_loads example_from_dict example_fs
     ''parameters.json'' ''NGC999'' = Inr (default_ParametersGC, False) \<and>
   zero_ParametersGC (default_ParametersGC :: rat ParametersGC)"
proof -
  have h0: "ascii ''NGC999''"
    by code_simp
  have h1: "\<forall>r\<in>set (data example_catalog).
      ascii (VasilievData.name r) \<and> \<not> eq_upto_case (VasilievData.name r) ''NGC999''"
    by code_simp
  have h2: "example_fs ''parameters.json'' = Some example_parameters_text"
    by (simp add: example_fs_def)
  have h3: "example_json_loads (read_text example_parameters_text) = Inr example_json"
    by (simp add: example_json_loads_def)
  have h4: "example_from_dict example_json = Inr example_document"
    by (simp add: example_from_dict_def)
  have h5: "\<forall>item\<in>set (globular_cluster example_document).
      ascii (ParametersGC.name item) \<and> \<not> eq_upto_case (ParametersGC.name item) ''NGC999''"
    by code_simp
  note inst = C2_miss_returns_zero_record [where d = example_catalog and q = "''NGC999''"
        and fs = example_fs and f = "''parameters.json''" and ls = example_parameters_text
        and json_loads = example_json_loads and dj = example_json
        and from_dict = example_from_dict and doc = example_document and py = example_py]
  have a: "get_selected_GC ''NGC999'' example_catalog = Inr (empty_VasilievData, False) \<and>
      zero_VasilievData (empty_VasilievData :: rat VasilievData)"
    by (rule mp [OF inst [THEN conjunct1]]) (intro conjI h0 h1)
  have b: "isInJSONParametersFile example_py example_json_loads example_from_dict example_fs
      ''parameters.json'' ''NGC999'' = Inr (default_ParametersGC, False) \<and>
      zero_ParametersGC (default_ParametersGC :: rat ParametersGC)"
    by (rule mp [OF inst [THEN conjunct2]]) (intro conjI h0 h2 h3 h4 h5)
  from a b h0 h1 h2 h3 h4 h5 show ?thesis
    by (simp add: list_all_iff)
qed

text \<open>
  C3: two query strings that are equal up to letter case, such as \<^verbatim>\<open>ngc104\<close> and
  \<^verbatim>\<open>NGC104\<close>, give identical results, for the catalogue lookup and for the
  parameter-store lookup.
\<close>

theorem C3_case_insensitive_query:
  assumes "eq_upto_case q1 q2"
  shows "get_selected_GC q1 d = get_selected_GC q2 d \<and>
    isInJSONParametersFile py json_loads from_dict fs f q1 =
    isInJSONParametersFile py json_loads from_dict fs f q2"
proof -
  from assms have u: "upper q1 = upper q2" by (rule eq_upto_case_upper)
  have "get_selected_GC q1 d = get_selected_GC q2 d"
    by (simp add: get_selected_GC_def scan_GC_upper [OF u])
  moreover have "isInJSONParametersFile py json_loads from_dict fs f q1 =
    isInJSONParametersFile py json_loads from_dict fs f q2"
    by (simp add: isInJSONParametersFile_def scan_parameters_upper [OF u])
  ultimately show ?thesis by simp
qed

theorem C3_case_insensitive_query_witness:
  "eq_upto_case ''ngc104'' ''NGC104'' \<and>
   get_selected_GC ''ngc104'' example_catalog = get_selected_GC ''NGC104'' example_catalog \<and>
   isInJSONParametersFile example_py example_json_loads example_from_dict example_fs
     ''parameters.json'' ''ngc104'' =
   isInJSONParametersFile example_py example_json_loads example_from_dict example_fs
     ''parameters.json'' ''NGC104''"
proof -
  have h: "eq_upto_case ''ngc104'' ''NGC104''"
    by code_simp
  show ?thesis
    using h C3_case_insensitive_query [OF h, where d = example_catalog and py = example_py
        and json_loads = example_json_loads and from_dict = example_from_dict
        and fs = example_fs and f = "''parameters.json''"]
    by simp
qed

text \<open>
  C4: the load keeps the order of the file, and when two or more rows have names equal
  up to letter case to the queried name, the lookup returns the first of them in file
  order. The file is plain ASCII text.
\<close>

theorem C4_first_duplicate_wins:
  assumes opened: "fs fname = Some ls" and plain: "\<forall>l\<in>set ls. plain_text l"
    and valid: "\<forall>l\<in>set ls. \<not> malformed cv l"
    and rows: "rows = filter data_line ls"
    and ij: "i < j" "j < length rows"
    and query: "ascii q"
    and first: "eq_upto_case (VasilievData.name (row_record cv (rows ! i))) q"
    and second: "eq_upto_case (VasilievData.name (row_record cv (rows ! j))) q"
    and none_before: "\<forall>k<i. \<not> eq_upto_case (VasilievData.name (row_record cv (rows ! k))) q"
  shows "get_GC_params cv fs fname = Inr \<lparr>data = map (row_record cv) rows\<rparr> \<and>
    get_selected_GC q \<lparr>data = map (row_record cv) rows\<rparr> = Inr (row_record cv (rows ! i), True)"
proof -
  from ij have "length rows \<noteq> 1" and "i < length rows" by simp_all
  with opened valid rows first none_before show ?thesis
    by (intro load_then_find)
qed

theorem C4_first_duplicate_wins_witness:
  "example_fs ''catalog.txt'' = Some
     [''# name ra dec dist hrv e_hrv pmra pmdec e_pmra e_pmdec corr rh n'',
      ''NGC104 1.5 -2.0 4.5 0.5 0.5 1.5 -2.0 0.5 0.5 0.5 1.5 7'',
      '''',
      ''Ngc104 4.5 4.5 4.5 4.5 4.5 4.5 4.5 4.5 4.5 4.5 4.5 12  # again'',
      ''NGC288 0.5 0.5 0.5 0.5 0.5 0.5 0.5 0.5 0.5 0.5 0.5 12''] \<and>
   list_all plain_text
     [''# name ra dec dist hrv e_hrv pmra pmdec e_pmra e_pmdec corr rh n'',
      ''NGC104 1.5 -2.0 4.5 0.5 0.5 1.5 -2.0 0.5 0.5 0.5 1.5 7'',
      '''',
      ''Ngc104 4.5 4.5 4.5 4.5 4.5 4.5 4.5 4.5 4.5 4.5 4.5 12  # again'',
      ''NGC288 0.5 0.5 0.5 0.5 0.5 0.5 0.5 0.5 0.5 0.5 0.5 12''] \<and>
   ascii ''ngc104'' \<and>
   get_GC_params example_conv example_fs ''catalog.txt'' = Inr example_catalog \<and>
   eq_upto_case (VasilievData.name (data example_catalog ! 0)) ''ngc104'' \<and>
   eq_upto_case (VasilievData.name (data example_catalog ! 1)) ''ngc104'' \<and>
   get_selected_GC ''ngc104'' example_catalog = Inr (data example_catalog ! 0, True)"
proof -
  define ls where "ls =
     [''# name ra dec dist hrv e_hrv pmra pmdec e_pmra e_pmdec corr rh n'',
      ''NGC104 1.5 -2.0 4.5 0.5 0.5 1.5 -2.0 0.5 0.5 0.5 1.5 7'',
      '''',
      ''Ngc104 4.5 4.5 4.5 4.5 4.5 4.5 4.5 4.5 4.5 4.5 4.5 12  # again'',
      ''NGC288 0.5 0.5 0.5 0.5 0.5 0.5 0.5 0.5 0.5 0.5 0.5 12'']"
  define rows where "rows =
     [''NGC104 1.5 -2.0 4.5 0.5 0.5 1.5 -2.0 0.5 0.5 0.5 1.5 7'',
      ''Ngc104 4.5 4.5 4.5 4.5 4.5 4.5 4.5 4.5 4.5 4.5 4.5 12  # again'',
      ''NGC288 0.5 0.5 0.5 0.5 0.5 0.5 0.5 0.5 0.5 0.5 0.5 12'']"
  have h1: "example_fs ''catalog.txt'' = Some ls"
    by (simp add: example_fs_def ls_def)
  have p: "list_all plain_text ls"
    unfolding ls_def by code_simp
  then have hp: "\<forall>l\<in>set ls. plain_text l"
    by (simp only: list_all_iff)
  have h2: "\<forall>l\<in>set ls. \<not> malformed example_conv l"
    unfolding ls_def by code_simp
  have h3: "rows = filter data_line ls"
    unfolding ls_def rows_def by code_simp
  have h4: "(0::nat) < 1" and h5: "1 < length rows"
    by (simp_all add: rows_def)
  have hq: "ascii ''ngc104''"
    by code_simp
  have h6: "eq_upto_case (VasilievData.name (row_record example_conv (rows ! 0))) ''ngc104''"
    unfolding rows_def by code_simp
  have h7: "eq_upto_case (VasilievData.name (row_record example_conv (rows ! 1))) ''ngc104''"
    unfolding rows_def by code_simp
  have h8: "\<forall>k<0::nat. \<not> eq_upto_case (VasilievData.name (row_record example_conv (rows ! k))) ''ngc104''"
    by simp
  have cat: "example_catalog = \<lparr>data = map (row_record example_conv) rows\<rparr>"
    by (simp add: example_catalog_def rows_def)
  from C4_first_duplicate_wins [where fs = example_fs and fname = "''catalog.txt''" and cv = example_conv,
      OF h1 hp h2 h3 h4 h5 hq h6 h7 h8]
  have "get_GC_params example_conv example_fs ''catalog.txt'' = Inr example_catalog \<and>
    get_selected_GC ''ngc104'' example_catalog = Inr (row_record example_conv (rows ! 0), True)"
    by (simp add: cat)
  with h1 p hq h6 h7 show ?thesis
    by (simp add: cat ls_def rows_def)
qed




text \<open>
  C6: when a catalogue file of plain ASCII text has a data line with the wrong number of
  fields or with a non-numeric value in a numeric column, the load fails with the
  \<^verbatim>\<open>ValueError\<close> of the reader (the spec's \<^verbatim>\<open>MalformedRecord\<close>) for the first such line.
  The error gives the number of that line among the data rows, so it identifies the line;
  the line is not skipped and no list is returned.
\<close>

theorem C6_malformed_line_fails:
  assumes "fs fname = Some ls" and "\<forall>l\<in>set ls. plain_text l"
    and "l \<in> set ls" and "malformed cv l"
  shows "\<exists>i<length ls. malformed cv (ls ! i) \<and> (\<forall>j<i. \<not> malformed cv (ls ! j)) \<and>
    filter data_line ls ! length (filter data_line (take i ls)) = ls ! i \<and>
    get_GC_params cv fs fname =
      Inl (loadtxt_error (ls ! i) (length (filter data_line (take i ls))))"
proof -
  from first_malformed [OF assms(3,4)] obtain i
    where i: "i < length ls" "malformed cv (ls ! i)" "\<forall>j<i. \<not> malformed cv (ls ! j)"
    by blast
  from assms(1) i have err: "get_GC_params cv fs fname =
      Inl (loadtxt_error (ls ! i) (length (filter data_line (take i ls))))"
    by (rule get_GC_params_malformed)
  from i(2) have "data_line (ls ! i)"
    by (simp add: malformed_def data_line_def Let_def)
  then have "filter data_line ls =
      filter data_line (take i ls) @ ls ! i # filter data_line (drop (Suc i) ls)"
    using id_take_nth_drop [OF i(1)] by (metis filter.simps(2) filter_append)
  then have "filter data_line ls ! length (filter data_line (take i ls)) = ls ! i"
    by (simp add: nth_append)
  with i err show ?thesis by blast
qed

theorem C6_malformed_line_fails_witness:
  "example_fs ''bad.txt'' = Some
     [''# the second cluster lacks columns'',
      ''NGC104 1.5 -2.0 4.5 0.5 0.5 1.5 -2.0 0.5 0.5 0.5 1.5 7'',
      ''NGC288 0.5 0.5 12'',
      ''NGC362 0.5 0.5 0.5 0.5 0.5 0.5 0.5 0.5 0.5 0.5 0.5 12''] \<and>
   list_all plain_text
     [''# the second cluster lacks columns'',
      ''NGC104 1.5 -2.0 4.5 0.5 0.5 1.5 -2.0 0.5 0.5 0.5 1.5 7'',
      ''NGC288 0.5 0.5 12'',
      ''NGC362 0.5 0.5 0.5 0.5 0.5 0.5 0.5 0.5 0.5 0.5 0.5 12''] \<and>
   malformed example_conv ''NGC288 0.5 0.5 12'' \<and>
   get_GC_params example_conv example_fs ''bad.txt'' = Inl (ValueError (WrongColumnCount 2)) \<and>
   example_fs ''notanumber.txt'' = Some
     [''# the distance of the second cluster is not known'',
      ''NGC104 1.5 -2.0 4.5 0.5 0.5 1.5 -2.0 0.5 0.5 0.5 1.5 7'',
      ''NGC288 0.5 0.5 n/a 0.5 0.5 0.5 0.5 0.5 0.5 0.5 0.5 12''] \<and>
   list_all plain_text
     [''# the distance of the second cluster is not known'',
      ''NGC104 1.5 -2.0 4.5 0.5 0.5 1.5 -2.0 0.5 0.5 0.5 1.5 7'',
      ''NGC288 0.5 0.5 n/a 0.5 0.5 0.5 0.5 0.5 0.5 0.5 0.5 12''] \<and>
   malformed example_conv ''NGC288 0.5 0.5 n/a 0.5 0.5 0.5 0.5 0.5 0.5 0.5 0.5 12'' \<and>
   get_GC_params example_conv example_fs ''notanumber.txt'' = Inl (ValueError (CannotConvert 1))"
proof -
  define ls where "ls =
     [''# the second cluster lacks columns'',
      ''NGC104 1.5 -2.0 4.5 0.5 0.5 1.5 -2.0 0.5 0.5 0.5 1.5 7'',
      ''NGC288 0.5 0.5 12'',
      ''NGC362 0.5 0.5 0.5 0.5 0.5 0.5 0.5 0.5 0.5 0.5 0.5 12'']"
  have h1: "example_fs ''bad.txt'' = Some ls"
    by (simp add: example_fs_def ls_def)
  have p: "list_all plain_text ls"
    unfolding ls_def by code_simp
  then have hp: "\<forall>l\<in>set ls. plain_text l"
    by (simp only: list_all_iff)
  have h2: "''NGC288 0.5 0.5 12'' \<in> set ls"
    by (simp add: ls_def)
  have h3: "malformed example_conv ''NGC288 0.5 0.5 12''"
    by code_simp
  have ok0: "\<not> malformed example_conv (ls ! 0)" and ok1: "\<not> malformed example_conv (ls ! 1)"
    unfolding ls_def by code_simp+
  from C6_malformed_line_fails [where fs = example_fs and fname = "''bad.txt''" and cv = example_conv,
      OF h1 hp h2 h3]
  obtain i where i: "i < length ls" "malformed example_conv (ls ! i)"
    "\<forall>j<i. \<not> malformed example_conv (ls ! j)"
    "get_GC_params example_conv example_fs ''bad.txt'' =
       Inl (loadtxt_error (ls ! i) (length (filter data_line (take i ls))))"
    by blast
  have "i = 2"
  proof -
    from i(2) ok0 ok1 have "i \<noteq> 0" "i \<noteq> 1" by metis+
    moreover have "malformed example_conv (ls ! 2)"
      using h3 by (simp add: ls_def)
    with i(3) have "\<not> 2 < i" by blast
    ultimately show ?thesis by arith
  qed
  moreover have "loadtxt_error (ls ! 2) (length (filter data_line (take 2 ls))) =
      ValueError (WrongColumnCount 2)"
    unfolding ls_def by code_simp
  ultimately have first: "get_GC_params example_conv example_fs ''bad.txt'' =
      Inl (ValueError (WrongColumnCount 2))"
    using i(4) by simp
  define ms where "ms =
     [''# the distance of the second cluster is not known'',
      ''NGC104 1.5 -2.0 4.5 0.5 0.5 1.5 -2.0 0.5 0.5 0.5 1.5 7'',
      ''NGC288 0.5 0.5 n/a 0.5 0.5 0.5 0.5 0.5 0.5 0.5 0.5 12'']"
  have g1: "example_fs ''notanumber.txt'' = Some ms"
    by (simp add: example_fs_def ms_def)
  have q: "list_all plain_text ms"
    unfolding ms_def by code_simp
  then have gp: "\<forall>l\<in>set ms. plain_text l"
    by (simp only: list_all_iff)
  have g2: "''NGC288 0.5 0.5 n/a 0.5 0.5 0.5 0.5 0.5 0.5 0.5 0.5 12'' \<in> set ms"
    by (simp add: ms_def)
  have g3: "malformed example_conv ''NGC288 0.5 0.5 n/a 0.5 0.5 0.5 0.5 0.5 0.5 0.5 0.5 12''"
    by code_simp
  have fine0: "\<not> malformed example_conv (ms ! 0)" and fine1: "\<not> malformed example_conv (ms ! 1)"
    unfolding ms_def by code_simp+
  from C6_malformed_line_fails [where fs = example_fs and fname = "''notanumber.txt''"
      and cv = example_conv, OF g1 gp g2 g3]
  obtain m where m: "m < length ms" "malformed example_conv (ms ! m)"
    "get_GC_params example_conv example_fs ''notanumber.txt'' =
       Inl (loadtxt_error (ms ! m) (length (filter data_line (take m ms))))"
    by blast
  have "m = 2"
  proof -
    from m(2) fine0 fine1 have "m \<noteq> 0" "m \<noteq> 1" by metis+
    moreover from m(1) have "m < 3" by (simp add: ms_def)
    ultimately show ?thesis by arith
  qed
  moreover have "loadtxt_error (ms ! 2) (length (filter data_line (take 2 ms))) =
      ValueError (CannotConvert 1)"
    unfolding ms_def by code_simp
  ultimately have second: "get_GC_params example_conv example_fs ''notanumber.txt'' =
      Inl (ValueError (CannotConvert 1))"
    using m(3) by simp
  from h1 p h3 first g1 q g3 second show ?thesis
    by (simp add: ls_def ms_def)
qed

text \<open>
  C7: for every path that names a missing or unreadable file, the catalogue load fails
  with the error of \<^verbatim>\<open>open\<close> (the spec's \<^verbatim>\<open>CatalogUnavailable\<close>) and the parameter-store
  load fails with the error of \<^verbatim>\<open>open\<close> (the spec's \<^verbatim>\<open>StoreUnavailable\<close>); neither
  returns a default result.
\<close>

theorem C7_missing_file_fails:
  assumes "fs path = None"
  shows "get_GC_params cv fs path = Inl (OSError path) \<and>
    isInJSONParametersFile py json_loads from_dict fs path object_name = Inl (OSError path)"
  using assms
  by (simp add: get_GC_params_missing isInJSONParametersFile_def open_read_def bind_err_def)

theorem C7_missing_file_fails_witness:
  "example_fs ''missing.txt'' = None \<and>
   get_GC_params example_conv example_fs ''missing.txt'' = Inl (OSError ''missing.txt'') \<and>
   isInJSONParametersFile example_py example_json_loads example_from_dict example_fs
     ''missing.txt'' ''NGC104'' = Inl (OSError ''missing.txt'')"
proof -
  have h: "example_fs ''missing.txt'' = None"
    by (simp add: example_fs_def)
  show ?thesis
    using h C7_missing_file_fails [where fs = example_fs and path = "''missing.txt''"
        and cv = example_conv and py = example_py and json_loads = example_json_loads
        and from_dict = example_from_dict and object_name = "''NGC104''", OF h]
    by simp
qed

text \<open>
  C8: for a catalogue file without data rows (comment lines and blank lines only, or
  nothing) the load returns the empty list, and every lookup in that list returns the
  zero-valued record with \<open>False\<close>.
\<close>

theorem C8_no_data_rows:
  fixes cv :: "('f::zero) numpy_conv"
  assumes "fs fname = Some ls" and "\<forall>l\<in>set ls. comment_line l \<or> blank_line l"
  shows "get_GC_params cv fs fname = Inr \<lparr>data = []\<rparr> \<and>
    (\<forall>q. get_selected_GC q (\<lparr>data = []\<rparr> :: 'f VasilievList) = Inr (empty_VasilievData, False)) \<and>
    zero_VasilievData (empty_VasilievData :: 'f VasilievData)"
proof -
  have nt: "tokens l = []" if "l \<in> set ls" for l
    using assms(2) that blank_no_tokens comment_no_tokens by blast
  then have nodata: "filter data_line ls = []"
    by (simp add: data_line_def filter_empty_conv)
  from nt have ok: "\<forall>l\<in>set ls. \<not> malformed cv l"
    by (simp add: malformed_def)
  have "get_GC_params cv fs fname = Inr \<lparr>data = map (row_record cv) (filter data_line ls)\<rparr>"
    using assms(1) ok by (rule get_GC_params_ok) (simp add: nodata)
  moreover have "get_selected_GC q (\<lparr>data = []\<rparr> :: 'f VasilievList) = Inr (empty_VasilievData, False)" for q
    by (simp add: get_selected_GC_miss)
  moreover have "zero_VasilievData (empty_VasilievData :: 'f VasilievData)"
    by (simp add: zero_VasilievData_def empty_VasilievData_def)
  ultimately show ?thesis by (simp add: nodata)
qed

theorem C8_no_data_rows_witness:
  "example_fs ''empty.txt'' = Some [''# no cluster yet'', ''   '', ''''] \<and>
   list_all (\<lambda>l. comment_line l \<or> blank_line l) [''# no cluster yet'', ''   '', ''''] \<and>
   get_GC_params example_conv example_fs ''empty.txt'' = Inr \<lparr>data = []\<rparr> \<and>
   (\<forall>q. get_selected_GC q (\<lparr>data = []\<rparr> :: rat VasilievList) = Inr (empty_VasilievData, False)) \<and>
   zero_VasilievData (empty_VasilievData :: rat VasilievData)"
proof -
  have h1: "example_fs ''empty.txt'' = Some [''# no cluster yet'', ''   '', '''']"
    by (simp add: example_fs_def)
  have h2: "list_all (\<lambda>l. comment_line l \<or> blank_line l) [''# no cluster yet'', ''   '', '''']"
    by code_simp
  then have h2': "\<forall>l\<in>set [''# no cluster yet'', ''   '', '''']. comment_line l \<or> blank_line l"
    by (simp only: list_all_iff)
  show ?thesis
    using h1 h2 C8_no_data_rows [where fs = example_fs and fname = "''empty.txt''"
        and cv = example_conv, OF h1 h2']
    by simp
qed

text \<open>
  C9: the two functions \<^verbatim>\<open>isInJSONParametersFile\<close> should agree. On a document that is
  not empty the function of \<^verbatim>\<open>Parameters_JSON.py\<close> raises \<^verbatim>\<open>NameError\<close>, which the
  function of \<^verbatim>\<open>Parameters.py\<close> does for no object name.
\<close>

theorem C9_JSON_variant_raises_NameError:
  "JSON_isInJSONParametersFile example_json_loads example_from_dict example_fs
     ''parameters.json'' = Inl (NameError ''object_name'') \<and>
   (\<forall>q. \<exists>c b. isInJSONParametersFile example_py example_json_loads example_from_dict
      example_fs ''parameters.json'' q = Inr (c, b))"
proof
  show "JSON_isInJSONParametersFile example_json_loads example_from_dict example_fs
     ''parameters.json'' = Inl (NameError ''object_name'')"
    by code_simp
  have "\<forall>item\<in>set (globular_cluster example_document). \<exists>c. mk_cluster_found example_py item = Inr c"
    using example_mk_cluster_found by (simp add: example_document_def)
  then show "\<forall>q. \<exists>c b. isInJSONParametersFile example_py example_json_loads example_from_dict
      example_fs ''parameters.json'' q = Inr (c, b)"
    unfolding example_loaded by (intro allI scan_parameters_no_NameError)
qed

text \<open>
  C10: on a hit both lookups return the name of the record as it is stored: the
  catalogue lookup returns the matched record itself, the store lookup copies the name of
  the matched item. The name returned can differ in letter case from the name queried.
  The names of the records and the queried name are ASCII strings.
\<close>

theorem C10_hit_returns_stored_name:
  fixes d :: "('f::zero) VasilievList" and py :: "'f py_builtins"
  shows "(ascii q \<and> data d = pre @ r # post \<and>
      (\<forall>x\<in>set pre. ascii (VasilievData.name x) \<and> \<not> eq_upto_case (VasilievData.name x) q) \<and>
      ascii (VasilievData.name r) \<and> eq_upto_case (VasilievData.name r) q \<longrightarrow>
        get_selected_GC q d = Inr (r, True)) \<and>
    (ascii q \<and> fs f = Some ls \<and> json_loads (read_text ls) = Inr dj \<and> from_dict dj = Inr doc \<and>
      globular_cluster doc = pre' @ item # post' \<and>
      (\<forall>x\<in>set pre'. ascii (ParametersGC.name x) \<and> \<not> eq_upto_case (ParametersGC.name x) q) \<and>
      ascii (ParametersGC.name item) \<and> eq_upto_case (ParametersGC.name item) q \<and>
      mk_cluster_found py item = Inr c \<longrightarrow>
        isInJSONParametersFile py json_loads from_dict fs f q = Inr (c, True) \<and>
        ParametersGC.name c = ParametersGC.name item) \<and>
    (\<exists>(d' :: 'f VasilievList) q' r'.
        get_selected_GC q' d' = Inr (r', True) \<and> VasilievData.name r' \<noteq> q')"
proof (intro conjI impI)
  assume "ascii q \<and> data d = pre @ r # post \<and>
      (\<forall>x\<in>set pre. ascii (VasilievData.name x) \<and> \<not> eq_upto_case (VasilievData.name x) q) \<and>
      ascii (VasilievData.name r) \<and> eq_upto_case (VasilievData.name r) q"
  then show "get_selected_GC q d = Inr (r, True)"
    by (auto simp: eq_upto_case_iff intro: get_selected_GC_first)
next
  assume a: "ascii q \<and> fs f = Some ls \<and> json_loads (read_text ls) = Inr dj \<and> from_dict dj = Inr doc \<and>
      globular_cluster doc = pre' @ item # post' \<and>
      (\<forall>x\<in>set pre'. ascii (ParametersGC.name x) \<and> \<not> eq_upto_case (ParametersGC.name x) q) \<and>
      ascii (ParametersGC.name item) \<and> eq_upto_case (ParametersGC.name item) q \<and>
      mk_cluster_found py item = Inr c"
  then show "isInJSONParametersFile py json_loads from_dict fs f q = Inr (c, True)"
    by (simp add: isInJSONParametersFile_loaded eq_upto_case_iff scan_parameters_first bind_err_def)
  from a show "ParametersGC.name c = ParametersGC.name item"
    by (blast dest: mk_cluster_found_name)
next
  define r' :: "'f VasilievData" where "r' = empty_VasilievData\<lparr>VasilievData.name := ''NGC104''\<rparr>"
  have "upper ''NGC104'' = upper ''ngc104''"
    by code_simp
  then have u: "upper (VasilievData.name r') = upper ''ngc104''"
    by (simp add: r'_def)
  have "get_selected_GC ''ngc104'' \<lparr>data = [r']\<rparr> = Inr (r', True)"
    using u by (simp add: get_selected_GC_def)
  moreover have "VasilievData.name r' \<noteq> ''ngc104''"
    by (simp add: r'_def)
  ultimately show "\<exists>(d' :: 'f VasilievList) q' r'.
        get_selected_GC q' d' = Inr (r', True) \<and> VasilievData.name r' \<noteq> q'"
    by blast
qed

theorem C10_hit_returns_stored_name_witness:
  "ascii ''ngc104'' \<and> ascii ''ngc5139'' \<and>
   ascii (VasilievData.name (hd (data example_catalog))) \<and>
   eq_upto_case (VasilievData.name (hd (data example_catalog))) ''ngc104'' \<and>
   VasilievData.name (hd (data example_catalog)) = ''NGC104'' \<and>
   get_selected_GC ''ngc104'' example_catalog = Inr (hd (data example_catalog), True) \<and>
   (\<exists>c. isInJSONParametersFile example_py example_json_loads example_from_dict example_fs
          ''parameters.json'' ''ngc5139'' = Inr (c, True) \<and>
        ParametersGC.name c = ''NGC5139'')"
proof -
  define r where "r = hd (data example_catalog)"
  define post where "post = tl (data example_catalog)"
  define item where "item = hd (globular_cluster example_document)"
  have q1: "ascii ''ngc104''" and q2: "ascii ''ngc5139''"
    by code_simp+
  have a1: "data example_catalog = [] @ r # post"
    by (simp add: r_def post_def example_catalog_def)
  have a2: "\<forall>x\<in>set []. ascii (VasilievData.name x) \<and> \<not> eq_upto_case (VasilievData.name x) ''ngc104''"
    by simp
  have a3: "eq_upto_case (VasilievData.name r) ''ngc104''"
    unfolding r_def by code_simp
  have a4: "ascii (VasilievData.name r)"
    unfolding r_def by code_simp
  have nm: "VasilievData.name r = ''NGC104''"
    unfolding r_def by code_simp
  have b1: "example_fs ''parameters.json'' = Some example_parameters_text"
    by (simp add: example_fs_def)
  have b2: "example_json_loads (read_text example_parameters_text) = Inr example_json"
    by (simp add: example_json_loads_def)
  have b3: "example_from_dict example_json = Inr example_document"
    by (simp add: example_from_dict_def)
  have b4: "globular_cluster example_document = [] @ item # []"
    by (simp add: item_def example_document_def)
  have b5: "\<forall>x\<in>set []. ascii (ParametersGC.name x) \<and> \<not> eq_upto_case (ParametersGC.name x) ''ngc5139''"
    by simp
  have b6: "eq_upto_case (ParametersGC.name item) ''ngc5139''"
    unfolding item_def by code_simp
  have b6': "ascii (ParametersGC.name item)"
    unfolding item_def by code_simp
  have b7: "mk_cluster_found example_py item = Inr item"
    by (rule mk_cluster_found_typed) (simp add: typed_ParametersGC_def item_def example_document_def)
  note cat_part = C10_hit_returns_stored_name [where d = example_catalog and q = "''ngc104''"
      and pre = "[]" and r = r and post = post]
  note store_part = C10_hit_returns_stored_name [where fs = example_fs and f = "''parameters.json''"
      and ls = example_parameters_text and json_loads = example_json_loads
      and dj = example_json and from_dict = example_from_dict and doc = example_document
      and pre' = "[]" and item = item and post' = "[]" and q = "''ngc5139''"
      and py = example_py and c = item]
  have g: "get_selected_GC ''ngc104'' example_catalog = Inr (r, True)"
    by (rule mp [OF cat_part [THEN conjunct1]]) (intro conjI q1 a1 a2 a3 a4)
  have "isInJSONParametersFile example_py example_json_loads example_from_dict example_fs
          ''parameters.json'' ''ngc5139'' = Inr (item, True) \<and>
        ParametersGC.name item = ParametersGC.name item"
    by (rule mp [OF store_part [THEN conjunct2, THEN conjunct1]])
      (intro conjI q2 b1 b2 b3 b4 b5 b6 b6' b7)
  then have s: "isInJSONParametersFile example_py example_json_loads example_from_dict example_fs
          ''parameters.json'' ''ngc5139'' = Inr (item, True)"
    by (rule conjunct1)
  have "ParametersGC.name item = ''NGC5139''"
    by (simp add: item_def example_document_def)
  with s have "\<exists>c. isInJSONParametersFile example_py example_json_loads example_from_dict
      example_fs ''parameters.json'' ''ngc5139'' = Inr (c, True) \<and> ParametersGC.name c = ''NGC5139''"
    by (intro exI [of _ item] conjI)
  with g a3 a4 nm q1 q2 show ?thesis
    unfolding r_def by (intro conjI)
qed

end
